theory Spec2Isabelle
  imports Complex_Main "HOL-Library.AList"
begin

section \<open>Python values and string operations used by the program\<close>

text \<open>
  Text is modelled as \<^typ>\<open>string\<close>: a list of characters with code points 0..255.
  The archive's index files, index pages and submission headers are ASCII, so the
  character tests below are Python's, restricted to that range.
\<close>

datatype pyval = PNone | PStr string | PInt int

datatype exn =
    KeyboardInterrupt
  | ReadTimeout
  | ConnectTimeout
  | ConnectionError
  | OtherRequestException
  | HTTPError nat
  | SystemExit string
  | KeyError string
  | IndexError
  | UnboundLocalError string
  | ValueError
  | FileNotFoundError
  | OSError
  | ZeroDivisionError
  | AttributeError
  | RuntimeError

text \<open>\<open>str(n)\<close> for an integer: its decimal digits, with a minus sign when negative.\<close>

fun digit_char :: "nat \<Rightarrow> char" where
  "digit_char n = (''0123456789'' ! (n mod 10))"

fun str_of_nat :: "nat \<Rightarrow> string" where
  "str_of_nat n = (if n < 10 then [digit_char n] else str_of_nat (n div 10) @ [digit_char n])"

definition str_of_int :: "int \<Rightarrow> string" where
  "str_of_int i = (if i < 0 then CHR ''-'' # str_of_nat (nat (- i)) else str_of_nat (nat i))"


subsection \<open>Character tests\<close>

text \<open>\<open>str.isspace\<close>, also the class \<open>\s\<close> of \<open>re\<close> and what \<open>str.strip()\<close> removes.\<close>

definition isspace :: "char \<Rightarrow> bool" where
  "isspace c = (c \<in> set [CHR 0x09, CHR 0x0A, CHR 0x0B, CHR 0x0C, CHR 0x0D, CHR 0x1C, CHR 0x1D,
                          CHR 0x1E, CHR 0x1F, CHR '' '', CHR 0x85, CHR 0xA0])"

text \<open>The class \<open>\d\<close> of \<open>re\<close>: the decimal digits.\<close>

definition isdecimal :: "char \<Rightarrow> bool" where
  "isdecimal c = (c \<in> set ''0123456789'')"

text \<open>\<open>str.isdigit()\<close> also accepts the superscript digits of Latin-1.\<close>

definition py_isdigit :: "string \<Rightarrow> bool" where
  "py_isdigit s = (s \<noteq> [] \<and> list_all (\<lambda>c. isdecimal c \<or> c \<in> set [CHR 0xB2, CHR 0xB3, CHR 0xB9]) s)"

text \<open>Case mapping of the ASCII letters; other characters are left as they are.\<close>

definition upper_char :: "char \<Rightarrow> char" where
  "upper_char c =
     (case map_of (zip ''abcdefghijklmnopqrstuvwxyz'' ''ABCDEFGHIJKLMNOPQRSTUVWXYZ'') c of
        Some d \<Rightarrow> d | None \<Rightarrow> c)"

definition swapcase_char :: "char \<Rightarrow> char" where
  "swapcase_char c =
     (case map_of (zip (''abcdefghijklmnopqrstuvwxyz'' @ ''ABCDEFGHIJKLMNOPQRSTUVWXYZ'')
                       (''ABCDEFGHIJKLMNOPQRSTUVWXYZ'' @ ''abcdefghijklmnopqrstuvwxyz'')) c of
        Some d \<Rightarrow> d | None \<Rightarrow> c)"

definition py_upper :: "string \<Rightarrow> string" where
  "py_upper s = map upper_char s"

definition lower_char :: "char \<Rightarrow> char" where
  "lower_char c =
     (case map_of (zip ''ABCDEFGHIJKLMNOPQRSTUVWXYZ'' ''abcdefghijklmnopqrstuvwxyz'') c of
        Some d \<Rightarrow> d | None \<Rightarrow> c)"

definition py_lower :: "string \<Rightarrow> string" where
  "py_lower s = map lower_char s"

subsection \<open>\<open>str\<close> methods\<close>

definition py_strip :: "string \<Rightarrow> string" where
  "py_strip s = rev (dropWhile isspace (rev (dropWhile isspace s)))"

fun startswith :: "string \<Rightarrow> string \<Rightarrow> bool" where
  "startswith s [] = True"
| "startswith [] (p # ps) = False"
| "startswith (c # cs) (p # ps) = (if c = p then startswith cs ps else False)"

definition endswith :: "string \<Rightarrow> string \<Rightarrow> bool" where
  "endswith s p = (length p \<le> length s \<and> drop (length s - length p) s = p)"

text \<open>\<open>s.find(sub)\<close>: the first index at which \<open>sub\<close> occurs, or \<open>-1\<close>.\<close>

fun find_sub :: "string \<Rightarrow> string \<Rightarrow> nat option" where
  "find_sub sub [] = (if sub = [] then Some 0 else None)"
| "find_sub sub (c # cs) =
     (if startswith (c # cs) sub then Some 0 else map_option Suc (find_sub sub cs))"

definition py_find :: "string \<Rightarrow> string \<Rightarrow> int" where
  "py_find s sub = (case find_sub sub s of None \<Rightarrow> - 1 | Some i \<Rightarrow> int i)"

text \<open>\<open>sub in s\<close>\<close>

definition py_in :: "string \<Rightarrow> string \<Rightarrow> bool" where
  "py_in sub s = (find_sub sub s \<noteq> None)"

text \<open>\<open>s[a:b]\<close>: a negative bound counts from the end, and both bounds are clipped.\<close>

definition slice_bound :: "nat \<Rightarrow> int \<Rightarrow> nat" where
  "slice_bound n i = (if i < 0 then nat (int n + i) else min n (nat i))"

definition py_slice :: "string \<Rightarrow> int \<Rightarrow> int \<Rightarrow> string" where
  "py_slice s a b = take (slice_bound (length s) b - slice_bound (length s) a)
                         (drop (slice_bound (length s) a) s)"

text \<open>\<open>s.split(sep)\<close> for a separator of one character: never empty.\<close>

fun py_split :: "char \<Rightarrow> string \<Rightarrow> string list" where
  "py_split sep [] = [[]]"
| "py_split sep (c # cs) =
     (if c = sep then [] # py_split sep cs
      else (case py_split sep cs of [] \<Rightarrow> [[c]] | w # ws \<Rightarrow> (c # w) # ws))"

text \<open>\<open>xs[-k]\<close> for \<open>k \<ge> 1\<close>: \<open>IndexError\<close> when the list is shorter than \<open>k\<close>.\<close>

definition from_end :: "'a list \<Rightarrow> nat \<Rightarrow> exn + 'a" where
  "from_end xs k = (if 1 \<le> k \<and> k \<le> length xs then Inr (xs ! (length xs - k)) else Inl IndexError)"

text \<open>
  \<open>s.replace(old, new)\<close>: the occurrences of \<open>old\<close> are replaced from left to right
  without overlap; the counter is the number of characters of the current occurrence
  still to be skipped.
\<close>

fun replace_from :: "string \<Rightarrow> string \<Rightarrow> nat \<Rightarrow> string \<Rightarrow> string" where
  "replace_from old new k [] = []"
| "replace_from old new (Suc k) (c # cs) = replace_from old new k cs"
| "replace_from old new 0 (c # cs) =
     (if startswith (c # cs) old then new @ replace_from old new (length old - 1) cs
      else c # replace_from old new 0 cs)"

definition py_replace :: "string \<Rightarrow> string \<Rightarrow> string \<Rightarrow> string" where
  "py_replace s old new =
     (if old = [] then new @ concat (map (\<lambda>c. c # new) s) else replace_from old new 0 s)"

text \<open>\<open>s.zfill(width)\<close>: zeros go after a leading sign.\<close>

definition zfill :: "string \<Rightarrow> nat \<Rightarrow> string" where
  "zfill s width =
     (case s of
        c # cs \<Rightarrow> if c = CHR ''+'' \<or> c = CHR ''-''
                  then c # replicate (width - length s) CHR ''0'' @ cs
                  else replicate (width - length s) CHR ''0'' @ s
      | [] \<Rightarrow> replicate width CHR ''0'')"

text \<open>
  \<open>s.splitlines()\<close>: a line ends at \<open>\n\<close>, \<open>\r\<close>, \<open>\r\n\<close>, \<open>\v\<close>, \<open>\f\<close>,
  \<open>\x1c\<close>, \<open>\x1d\<close>, \<open>\x1e\<close> or \<open>\x85\<close>; no empty line follows a final line end.
\<close>

definition is_linebreak :: "char \<Rightarrow> bool" where
  "is_linebreak c = (c \<in> set [CHR 0x0A, CHR 0x0D, CHR 0x0B, CHR 0x0C, CHR 0x1C, CHR 0x1D, CHR 0x1E, CHR 0x85])"

fun splitlines :: "string \<Rightarrow> string list" where
  "splitlines [] = []"
| "splitlines [c] = (if is_linebreak c then [[]] else [[c]])"
| "splitlines (c # d # cs) =
     (if c = CHR 0x0D \<and> d = CHR 0x0A then [] # splitlines cs
      else if is_linebreak c then [] # splitlines (d # cs)
      else (case splitlines (d # cs) of [] \<Rightarrow> [[c]] | l # ls \<Rightarrow> (c # l) # ls))"

text \<open>\<open>int(s)\<close> on a string of decimal digits.\<close>

definition digit_val :: "char \<Rightarrow> nat" where
  "digit_val c = (case find_sub [c] ''0123456789'' of Some i \<Rightarrow> i | None \<Rightarrow> 0)"

definition nat_of_digits :: "string \<Rightarrow> nat" where
  "nat_of_digits s = foldl (\<lambda>n c. 10 * n + digit_val c) 0 s"

section \<open>The regular expressions of \<open>re\<close> that the program uses\<close>

text \<open>
  A backtracking matcher with Python's priorities: alternatives left to right, a greedy
  repeat takes the longest run first, a lazy one the shortest.  Every repeat in the
  program's patterns is over a single character class, so a repeat is a class with its
  bounds.  Groups are numbered; the matcher records their spans.
\<close>

record flags =
  ignorecase :: bool
  dotall :: bool

datatype cset =
    CChar char
  | CRange char char
  | CAny
  | CSpace
  | CDigit
  | CNot cset
  | COr cset cset

fun cset_plain :: "flags \<Rightarrow> cset \<Rightarrow> char \<Rightarrow> bool" where
  "cset_plain f (CChar d) c = (c = d)"
| "cset_plain f (CRange lo hi) c = ((of_char lo :: nat) \<le> of_char c \<and> (of_char c :: nat) \<le> of_char hi)"
| "cset_plain f CAny c = (dotall f \<or> c \<noteq> CHR 0x0A)"
| "cset_plain f CSpace c = isspace c"
| "cset_plain f CDigit c = isdecimal c"
| "cset_plain f (CNot s) c = (\<not> cset_plain f s c)"
| "cset_plain f (COr s t) c = (cset_plain f s c \<or> cset_plain f t c)"

fun in_cset :: "flags \<Rightarrow> cset \<Rightarrow> char \<Rightarrow> bool" where
  "in_cset f (CNot s) c = (\<not> in_cset f s c)"
| "in_cset f s c = (if ignorecase f then cset_plain f s c \<or> cset_plain f s (swapcase_char c)
                    else cset_plain f s c)"

datatype regex =
    Chr cset
  | Str string
  | Eps
  | Seq regex regex
  | Alt regex regex
  | Rep bool nat "nat option" cset
  | Grp nat regex
  | Bol
  | Eol

fun rsize :: "regex \<Rightarrow> nat" where
  "rsize (Seq a b) = Suc (rsize a + rsize b)"
| "rsize (Alt a b) = Suc (rsize a + rsize b)"
| "rsize (Grp n r) = Suc (rsize r)"
| "rsize r = 0"

text \<open>The rest of the pattern still to be matched: patterns, and the ends of open groups.\<close>

datatype kont = KR regex | KClose nat nat

fun kweight :: "kont \<Rightarrow> nat" where
  "kweight (KR r) = 2 * rsize r + 1"
| "kweight (KClose n p) = 1"

type_synonym spans = "(nat \<times> nat \<times> nat) list"

fun lit_prefix :: "flags \<Rightarrow> string \<Rightarrow> string \<Rightarrow> bool" where
  "lit_prefix f [] s = True"
| "lit_prefix f (d # ds) [] = False"
| "lit_prefix f (d # ds) (c # cs) = (if in_cset f (CChar d) c then lit_prefix f ds cs else False)"

function bt :: "flags \<Rightarrow> kont list \<Rightarrow> nat \<Rightarrow> string \<Rightarrow> spans \<Rightarrow> (nat \<times> spans) option" where
  "bt f [] p s c = Some (p, c)"
| "bt f (KClose n st # k) p s c = bt f k p s (AList.update n (st, p) c)"
| "bt f (KR (Chr cs) # k) p s c =
     (case s of [] \<Rightarrow> None | x # t \<Rightarrow> if in_cset f cs x then bt f k (Suc p) t c else None)"
| "bt f (KR (Str lit) # k) p s c =
     (if lit_prefix f lit s then bt f k (p + length lit) (drop (length lit) s) c else None)"
| "bt f (KR Eps # k) p s c = bt f k p s c"
| "bt f (KR (Seq a b) # k) p s c = bt f (KR a # KR b # k) p s c"
| "bt f (KR (Alt a b) # k) p s c =
     (case bt f (KR a # k) p s c of Some r \<Rightarrow> Some r | None \<Rightarrow> bt f (KR b # k) p s c)"
| "bt f (KR (Rep greedy lo hi cs) # k) p s c =
     (if greedy then
        (case (case s of [] \<Rightarrow> None
               | x # t \<Rightarrow> if hi \<noteq> Some 0 \<and> in_cset f cs x
                          then bt f (KR (Rep greedy (lo - 1) (map_option (\<lambda>h. h - 1) hi) cs) # k) (Suc p) t c
                          else None) of
           Some r \<Rightarrow> Some r
         | None \<Rightarrow> if lo = 0 then bt f k p s c else None)
      else
        (case (if lo = 0 then bt f k p s c else None) of
           Some r \<Rightarrow> Some r
         | None \<Rightarrow> (case s of [] \<Rightarrow> None
               | x # t \<Rightarrow> if hi \<noteq> Some 0 \<and> in_cset f cs x
                          then bt f (KR (Rep greedy (lo - 1) (map_option (\<lambda>h. h - 1) hi) cs) # k) (Suc p) t c
                          else None)))"
| "bt f (KR (Grp n r) # k) p s c = bt f (KR r # KClose n p # k) p s c"
| "bt f (KR Bol # k) p s c = (if p = 0 then bt f k p s c else None)"
| "bt f (KR Eol # k) p s c = (if s = [] \<or> s = [CHR 0x0A] then bt f k p s c else None)"
  by pat_completeness auto
termination
  by (relation "measures [\<lambda>(f, k, p, s, c). sum_list (map kweight k), \<lambda>(f, k, p, s, c). length s]")
     auto

text \<open>A match object: the subject string, start, end and the spans of the groups.\<close>

record rmatch =
  m_string :: string
  m_start :: nat
  m_end :: nat
  m_spans :: spans

text \<open>\<open>match_at f r whole p s\<close>: \<open>s\<close> is what is left of \<open>whole\<close> from position \<open>p\<close>.\<close>

definition match_at :: "flags \<Rightarrow> regex \<Rightarrow> string \<Rightarrow> nat \<Rightarrow> string \<Rightarrow> rmatch option" where
  "match_at f r whole p s =
     (case bt f [KR r] p s [] of
        None \<Rightarrow> None
      | Some (e, c) \<Rightarrow> Some \<lparr> m_string = whole, m_start = p, m_end = e, m_spans = c \<rparr>)"

definition re_match :: "flags \<Rightarrow> regex \<Rightarrow> string \<Rightarrow> rmatch option" where
  "re_match f r s = match_at f r s 0 s"

fun search_from :: "flags \<Rightarrow> regex \<Rightarrow> string \<Rightarrow> nat \<Rightarrow> string \<Rightarrow> rmatch option" where
  "search_from f r whole p [] = match_at f r whole p []"
| "search_from f r whole p (x # t) =
     (case match_at f r whole p (x # t) of
        Some m \<Rightarrow> Some m
      | None \<Rightarrow> search_from f r whole (Suc p) t)"

definition re_search :: "flags \<Rightarrow> regex \<Rightarrow> string \<Rightarrow> rmatch option" where
  "re_search f r s = search_from f r s 0 s"

text \<open>\<open>m.group(n)\<close> for a group that took part in the match; \<open>m.group(0)\<close> is the match.\<close>

definition substring :: "string \<Rightarrow> nat \<Rightarrow> nat \<Rightarrow> string" where
  "substring s a b = take (b - a) (drop a s)"

definition group :: "rmatch \<Rightarrow> nat \<Rightarrow> string option" where
  "group m n =
     (if n = 0 then Some (substring (m_string m) (m_start m) (m_end m))
      else (case map_of (m_spans m) n of
              None \<Rightarrow> None
            | Some (a, b) \<Rightarrow> Some (substring (m_string m) a b)))"

text \<open>
  The spans of the successive matches, as \<open>re.finditer\<close> finds them.  The patterns this is
  used with begin with a literal character, so a match is never empty; after an empty
  match the scan would move on by one character.
\<close>

function scan :: "flags \<Rightarrow> regex \<Rightarrow> nat \<Rightarrow> string \<Rightarrow> (nat \<times> nat) list" where
  "scan f r p s =
     (case bt f [KR r] p s [] of
        Some (e, c) \<Rightarrow>
          (p, e) # (if s = [] then [] else scan f r (p + max 1 (e - p)) (drop (max 1 (e - p)) s))
      | None \<Rightarrow> (case s of [] \<Rightarrow> [] | x # t \<Rightarrow> scan f r (Suc p) t))"
  by pat_completeness auto
termination
  by (relation "measure (\<lambda>(f, r, p, s). length s)") auto

definition re_findall :: "flags \<Rightarrow> regex \<Rightarrow> string \<Rightarrow> string list" where
  "re_findall f r s = map (\<lambda>(a, e). substring s a e) (scan f r 0 s)"

fun splice :: "string \<Rightarrow> string \<Rightarrow> nat \<Rightarrow> (nat \<times> nat) list \<Rightarrow> string" where
  "splice repl s pos [] = s"
| "splice repl s pos ((a, e) # ms) = take (a - pos) s @ repl @ splice repl (drop (e - pos) s) e ms"

text \<open>\<open>re.sub(pattern, repl, s)\<close> for a replacement without group references.\<close>

definition re_sub :: "flags \<Rightarrow> regex \<Rightarrow> string \<Rightarrow> string \<Rightarrow> string" where
  "re_sub f r repl s = splice repl s 0 (scan f r 0 s)"

definition NOFLAGS :: flags where "NOFLAGS = \<lparr> ignorecase = False, dotall = False \<rparr>"
definition IGNORECASE :: flags where "IGNORECASE = \<lparr> ignorecase = True, dotall = False \<rparr>"
definition DOTALL :: flags where "DOTALL = \<lparr> ignorecase = False, dotall = True \<rparr>"

text \<open>\<open>X*\<close>, \<open>X+\<close>, \<open>X*?\<close>, \<open>X+?\<close>, \<open>X{n}\<close>, \<open>X{n,}\<close> and \<open>(?:R)?\<close>.\<close>

definition rstar :: "cset \<Rightarrow> regex" where "rstar cs = Rep True 0 None cs"
definition rplus :: "cset \<Rightarrow> regex" where "rplus cs = Rep True 1 None cs"
definition rstar_lazy :: "cset \<Rightarrow> regex" where "rstar_lazy cs = Rep False 0 None cs"
definition rplus_lazy :: "cset \<Rightarrow> regex" where "rplus_lazy cs = Rep False 1 None cs"
definition rexactly :: "nat \<Rightarrow> cset \<Rightarrow> regex" where "rexactly n cs = Rep True n (Some n) cs"
definition ratleast :: "nat \<Rightarrow> cset \<Rightarrow> regex" where "ratleast n cs = Rep True n None cs"
definition ropt :: "regex \<Rightarrow> regex" where "ropt r = Alt r Eps"

fun seqs :: "regex list \<Rightarrow> regex" where
  "seqs [] = Eps"
| "seqs [r] = r"
| "seqs (r # rs) = Seq r (seqs rs)"

fun alts :: "regex list \<Rightarrow> regex" where
  "alts [] = Eps"
| "alts [r] = r"
| "alts (r # rs) = Alt r (alts rs)"


section \<open>FilingStore: \<open>utils/sec_database.py\<close>\<close>

text \<open>
  The table \<open>filings\<close> is a list of rows in insertion order.  Every column keeps the
  value bound to it; a \<open>TEXT\<close> column turns a bound integer into its decimal text
  (SQLite's text affinity).  \<open>filing_id TEXT PRIMARY KEY\<close> is a uniqueness
  constraint that, as in SQLite, does not exclude \<open>NULL\<close>; \<open>cik\<close>,
  \<open>accession_number\<close> and \<open>form_type\<close> are \<open>NOT NULL\<close>.
\<close>

record filing_row =
  r_filing_id :: pyval
  r_cik :: pyval
  r_accession_number :: pyval
  r_form_type :: pyval
  r_company_name :: pyval
  r_ticker :: pyval
  r_fiscal_year :: pyval
  r_fiscal_period :: pyval
  r_filing_date :: pyval
  r_period_end_date :: pyval
  r_file_path :: pyval
  r_file_count :: pyval
  r_total_size :: pyval
  r_download_status :: pyval
  r_updated_at :: pyval

type_synonym filings_table = "filing_row list"

type_synonym pydict = "(string \<times> pyval) list"

definition sql_text :: "pyval \<Rightarrow> pyval" where
  "sql_text v = (case v of PInt i \<Rightarrow> PStr (str_of_int i) | _ \<Rightarrow> v)"

text \<open>\<open>f"{cik}_{accession_number}"\<close>\<close>

definition filing_id_of :: "string \<Rightarrow> string \<Rightarrow> string" where
  "filing_id_of cik accession_number = cik @ ''_'' @ accession_number"

text \<open>\<open>SELECT 1 FROM filings WHERE filing_id = ?\<close>, then \<open>fetchone() is not None\<close>.\<close>

definition is_filing_downloaded :: "filings_table \<Rightarrow> string \<Rightarrow> string \<Rightarrow> bool" where
  "is_filing_downloaded tbl cik accession_number =
     list_ex (\<lambda>r. r_filing_id r = PStr (filing_id_of cik accession_number)) tbl"

text \<open>\<open>dict.get(key, default)\<close>\<close>

definition dict_get :: "pydict \<Rightarrow> string \<Rightarrow> pyval \<Rightarrow> pyval" where
  "dict_get d k dflt = (case map_of d k of Some v \<Rightarrow> v | None \<Rightarrow> dflt)"

text \<open>
  \<open>INSERT OR REPLACE\<close>: a row that violates \<open>NOT NULL\<close> on a column without a
  default aborts the statement; rows with the same non-null primary key are deleted
  before the new row is inserted.
\<close>

definition insert_or_replace :: "filing_row \<Rightarrow> filings_table \<Rightarrow> filings_table option" where
  "insert_or_replace row tbl =
     (if r_cik row = PNone \<or> r_accession_number row = PNone \<or> r_form_type row = PNone
      then None
      else Some (filter (\<lambda>r. r_filing_id row = PNone \<or> r_filing_id r \<noteq> r_filing_id row) tbl
                 @ [row]))"

text \<open>
  \<open>add_filing\<close>: the four subscripted keys raise \<open>KeyError\<close> when absent, the others
  are read with \<open>get\<close> and a default.  Every exception is caught and turned into the
  result \<open>False\<close>, with the table as it was.  \<open>now\<close> is \<open>datetime.now().isoformat()\<close>.
\<close>

definition add_filing :: "string \<Rightarrow> filings_table \<Rightarrow> pydict \<Rightarrow> bool \<times> filings_table" where
  "add_filing now tbl filing_data =
     (case (map_of filing_data ''filing_id'', map_of filing_data ''cik'',
            map_of filing_data ''accession_number'', map_of filing_data ''form_type'') of
        (Some fid, Some cik, Some acc, Some form) \<Rightarrow>
          (case insert_or_replace
                  \<lparr> r_filing_id = sql_text fid,
                    r_cik = sql_text cik,
                    r_accession_number = sql_text acc,
                    r_form_type = sql_text form,
                    r_company_name = sql_text (dict_get filing_data ''company_name'' (PStr [])),
                    r_ticker = sql_text (dict_get filing_data ''ticker'' (PStr [])),
                    r_fiscal_year = sql_text (dict_get filing_data ''fiscal_year'' (PStr [])),
                    r_fiscal_period = sql_text (dict_get filing_data ''fiscal_period'' (PStr [])),
                    r_filing_date = sql_text (dict_get filing_data ''filing_date'' (PStr [])),
                    r_period_end_date = sql_text (dict_get filing_data ''period_end_date'' (PStr [])),
                    r_file_path = sql_text (dict_get filing_data ''file_path'' (PStr [])),
                    r_file_count = dict_get filing_data ''file_count'' (PInt 0),
                    r_total_size = dict_get filing_data ''total_size'' (PInt 0),
                    r_download_status = PStr ''completed'',
                    r_updated_at = PStr now \<rparr> tbl of
             Some tbl' \<Rightarrow> (True, tbl')
           | None \<Rightarrow> (False, tbl))
      | _ \<Rightarrow> (False, tbl))"

text \<open>\<open>DELETE FROM filings WHERE filing_id = ?\<close>; the result is \<open>cursor.rowcount\<close>.\<close>

definition delete_filing_record :: "filings_table \<Rightarrow> string \<Rightarrow> string \<Rightarrow> nat \<times> filings_table" where
  "delete_filing_record tbl cik accession_number =
     (length (filter (\<lambda>r. r_filing_id r = PStr (filing_id_of cik accession_number)) tbl),
      filter (\<lambda>r. r_filing_id r \<noteq> PStr (filing_id_of cik accession_number)) tbl)"


section \<open>HttpClient: \<open>safe_request\<close>\<close>

text \<open>
  What \<open>session.get\<close> does with a request is given from outside: it answers with a
  response or raises.  \<open>ConnectTimeout\<close> is both a \<open>Timeout\<close> and a
  \<open>ConnectionError\<close> of \<open>requests\<close>; \<open>ReadTimeout\<close> is a \<open>Timeout\<close>.
  \<open>KeyboardInterrupt\<close> and \<open>SystemExit\<close> are not subclasses of \<open>Exception\<close>.
\<close>

record response =
  status_code :: nat
  text_of :: string

datatype get_result = Responded response | Raised exn

definition is_Timeout :: "exn \<Rightarrow> bool" where
  "is_Timeout e = (e = ReadTimeout \<or> e = ConnectTimeout)"

definition is_ConnectionError :: "exn \<Rightarrow> bool" where
  "is_ConnectionError e = (e = ConnectTimeout \<or> e = ConnectionError)"

definition is_SystemExit :: "exn \<Rightarrow> bool" where
  "is_SystemExit e = (case e of SystemExit m \<Rightarrow> True | _ \<Rightarrow> False)"

definition is_Exception :: "exn \<Rightarrow> bool" where
  "is_Exception e = (e \<noteq> KeyboardInterrupt \<and> \<not> is_SystemExit e)"

definition is_RequestException :: "exn \<Rightarrow> bool" where
  "is_RequestException e =
     (case e of ReadTimeout \<Rightarrow> True | ConnectTimeout \<Rightarrow> True | ConnectionError \<Rightarrow> True
      | OtherRequestException \<Rightarrow> True | HTTPError c \<Rightarrow> True | _ \<Rightarrow> False)"

text \<open>
  \<open>safe_request\<close> on the outcome of \<open>session.get(url)\<close>.  The branches for 404, for
  500 and above and for 400 and above only log.  The handlers are tried in the order of
  the source: \<open>KeyboardInterrupt\<close>, \<open>Timeout\<close>, \<open>ConnectionError\<close>, \<open>SystemExit\<close>,
  \<open>Exception\<close>.  The text of the caught exception is left out of the last message.
\<close>

definition safe_request :: "get_result \<Rightarrow> exn + response" where
  "safe_request g =
     (case g of
        Responded response \<Rightarrow>
          (if status_code response = 429
             then Inl (SystemExit ''[429 ERROR] Program stopped due to rate limit'')
           else if status_code response = 403
             then Inl (SystemExit ''[403 ERROR] Program stopped due to access forbidden'')
           else if status_code response = 404 then Inr response
           else if status_code response \<ge> 500 then Inr response
           else if status_code response \<ge> 400 then Inr response
           else Inr response)
      | Raised e \<Rightarrow>
          (if e = KeyboardInterrupt
             then Inl (SystemExit ''[KEYBOARD INTERRUPT] Program stopped by user'')
           else if is_Timeout e then Inr \<lparr> status_code = 408, text_of = [] \<rparr>
           else if is_ConnectionError e
             then Inl (SystemExit ''[CONNECTION ERROR] Program stopped due to connection error'')
           else if is_SystemExit e then Inl e
           else if is_Exception e
             then Inl (SystemExit ''[UNEXPECTED ERROR] Program stopped due to '')
           else Inl e))"

text \<open>\<open>response.raise_for_status()\<close>\<close>

definition raise_for_status :: "response \<Rightarrow> exn + unit" where
  "raise_for_status r =
     (if 400 \<le> status_code r \<and> status_code r < 600 then Inl (HTTPError (status_code r)) else Inr ())"

section \<open>RateLimiter: \<open>utils/rate_limit.py\<close>\<close>




section \<open>IndexPageParser: \<open>daily_downloader_inspect.py\<close>\<close>

record descriptor =
  d_company_name :: string
  d_form_type :: string
  d_cik :: string
  d_date_filed :: string
  d_file_name :: string
  d_accession_number :: string

definition target_forms :: "string list" where
  "target_forms = [''10-K'', ''10-Q'', ''10-K/A'', ''10-Q/A'']"

text \<open>
  \<open>^(?P<form_type>\S+)\s+(?P<company_name>.+?)\s{2,}(?P<cik>\d+)\s+(?P<date_filed>\d{8})\s+(?P<file_name>\S+\.txt)$\<close>
  with the groups numbered 1 to 5 in this order.
\<close>

definition daily_index_pattern :: regex where
  "daily_index_pattern =
     seqs [Bol, Grp 1 (rplus (CNot CSpace)), rplus CSpace,
           Grp 2 (rplus_lazy CAny), ratleast 2 CSpace, Grp 3 (rplus CDigit), rplus CSpace,
           Grp 4 (rexactly 8 CDigit), rplus CSpace,
           Grp 5 (Seq (rplus (CNot CSpace)) (Str ''.txt'')), Eol]"

text \<open>
  \<open>parse_daily_index_line\<close>: \<open>None\<close> when the line does not match, when the form type is
  not a target form (the function then ends without a \<open>return\<close>), and when anything
  raises (the \<open>IndexError\<close> of \<open>split('/')[-2]\<close> on a file name without a slash).
\<close>

definition parse_daily_index_line :: "string \<Rightarrow> descriptor option" where
  "parse_daily_index_line line =
     (case re_match NOFLAGS daily_index_pattern (py_strip line) of
        None \<Rightarrow> None
      | Some m \<Rightarrow>
          (case (group m 1, group m 2, group m 4, group m 5) of
             (Some form_type, Some company_name, Some date_filed, Some fname) \<Rightarrow>
               (case from_end (py_split CHR ''/'' fname) 2 of
                  Inl e \<Rightarrow> None
                | Inr seg \<Rightarrow>
                    (let cik = zfill seg 10;
                         file_name = py_strip fname;
                         url = (if py_in ''edgar'' file_name
                                then ''https://www.sec.gov/Archives/'' @ file_name
                                else ''https://www.sec.gov/Archives/edgar/'' @ file_name)
                     in if form_type \<in> set target_forms
                        then (case from_end (py_split CHR ''/'' (py_strip fname)) 1 of
                                Inl e \<Rightarrow> None
                              | Inr base \<Rightarrow>
                                  Some \<lparr> d_company_name = company_name,
                                         d_form_type = form_type,
                                         d_cik = cik,
                                         d_date_filed = date_filed,
                                         d_file_name = url,
                                         d_accession_number = hd (py_split CHR ''.'' base) \<rparr>)
                        else None))
           | _ \<Rightarrow> None))"

text \<open>The first loop of \<open>pure_parse_daily_single_index\<close>: \<open>set(line) == {'-'}\<close>.\<close>

fun find_data_start :: "string list \<Rightarrow> nat \<Rightarrow> nat option" where
  "find_data_start [] i = None"
| "find_data_start (line # lines) i =
     (if set line = {CHR ''-''} then Some (i + 1) else find_data_start lines (i + 1))"

text \<open>The second loop: the filings of the lines from \<open>data_start\<close> on.\<close>

fun collect_filings :: "string list \<Rightarrow> descriptor list" where
  "collect_filings [] = []"
| "collect_filings (line # lines) =
     (case parse_daily_index_line line of
        Some filing \<Rightarrow> if d_form_type filing \<in> set target_forms
                       then filing # collect_filings lines else collect_filings lines
      | None \<Rightarrow> collect_filings lines)"

text \<open>
  \<open>pure_parse_daily_single_index\<close> on the outcome of the request for the index file.
  Only a \<open>RequestException\<close> is caught; \<open>data_start\<close> is bound only by the first loop,
  so reading it after a loop that never found the separator raises
  \<open>UnboundLocalError\<close>, which leaves the function.
\<close>

definition pure_parse_daily_single_index :: "get_result \<Rightarrow> exn + descriptor list" where
  "pure_parse_daily_single_index g =
     (case safe_request g of
        Inl e \<Rightarrow> if is_RequestException e then Inr [] else Inl e
      | Inr response \<Rightarrow>
          (case raise_for_status response of
             Inl e \<Rightarrow> if is_RequestException e then Inr [] else Inl e
           | Inr u \<Rightarrow>
               (let lines = splitlines (text_of response) in
                case find_data_start lines 0 of
                  None \<Rightarrow> Inl (UnboundLocalError ''data_start'')
                | Some data_start \<Rightarrow> Inr (collect_filings (drop data_start lines)))))"

text \<open>Two index files for the examples below: one without and one with a separator line.\<close>

definition idx_no_separator :: string where
  "idx_no_separator = ''Form Type   Company Name   CIK   Date Filed  File Name'' @ [CHR 0x0A]"

definition idx_only_separator :: string where
  "idx_only_separator = ''Form Type   Company Name   CIK   Date Filed  File Name'' @ [CHR 0x0A] @ ''-----'' @ [CHR 0x0A]"





section \<open>DocumentDiscovery: \<open>utils/index_parser.py\<close>\<close>

text \<open>\<open><[^>]+>\<close>, \<open><tr[^>]*>.*?</tr>\<close>, \<open>doc=([^&]+)\<close> and the pattern of a table row:
  \<open><td[^>]*>.*?</td>\s*<td[^>]*>(.*?)</td>\s*<td[^>]*>.*?href="([^"]+)"[^>]*>.*?</a>.*?</td>\s*<td[^>]*>(.*?)</td>\<close>\<close>

definition not_gt :: cset where
  "not_gt = CNot (CChar CHR ''>'')"

definition tag_pattern :: regex where
  "tag_pattern = seqs [Str ''<'', rplus not_gt, Str ''>'']"

definition tr_pattern :: regex where
  "tr_pattern = seqs [Str ''<tr'', rstar not_gt, Str ''>'', rstar_lazy CAny, Str ''</tr>'']"

definition doc_pattern :: regex where
  "doc_pattern = seqs [Str ''doc='', Grp 1 (rplus (CNot (CChar CHR ''&'')))]"

definition td_pattern :: regex where
  "td_pattern =
     seqs [Str ''<td'', rstar not_gt, Str ''>'', rstar_lazy CAny, Str ''</td>'', rstar CSpace,
           Str ''<td'', rstar not_gt, Str ''>'', Grp 1 (rstar_lazy CAny), Str ''</td>'', rstar CSpace,
           Str ''<td'', rstar not_gt, Str ''>'', rstar_lazy CAny, Str (''href='' @ [CHR 0x22]),
             Grp 2 (rplus (CNot (CChar (CHR 0x22)))), Str [CHR 0x22], rstar not_gt, Str ''>'',
             rstar_lazy CAny, Str ''</a>'', rstar_lazy CAny, Str ''</td>'', rstar CSpace,
           Str ''<td'', rstar not_gt, Str ''>'', Grp 3 (rstar_lazy CAny), Str ''</td>'']"

definition strip_html_tags :: "string \<Rightarrow> string" where
  "strip_html_tags t = re_sub NOFLAGS tag_pattern [] t"

record doc_entry =
  e_type :: string
  e_doc :: string

type_synonym doc_dict = "(string \<times> doc_entry) list"

text \<open>The body of both loops up to the test of the link: description, link and type of a row.\<close>

definition normalize_href :: "string \<Rightarrow> string" where
  "normalize_href raw_href =
     (if startswith raw_href ''/ix?doc=''
      then (case re_search NOFLAGS doc_pattern raw_href of
              Some href_match \<Rightarrow> (case group href_match 1 of Some h \<Rightarrow> h | None \<Rightarrow> raw_href)
            | None \<Rightarrow> raw_href)
      else raw_href)"

definition row_fields :: "string \<Rightarrow> (string \<times> string \<times> string) option" where
  "row_fields row =
     (case re_search DOTALL td_pattern row of
        None \<Rightarrow> None
      | Some m \<Rightarrow>
          (case (group m 1, group m 2, group m 3) of
             (Some g1, Some g2, Some g3) \<Rightarrow>
               Some (strip_html_tags (py_strip g1), normalize_href (py_strip g2),
                     strip_html_tags (py_strip g3))
           | _ \<Rightarrow> None))"

text \<open>\<open>href.endswith(('htm', 'html', 'txt'))\<close>\<close>

definition keeps_link :: "string \<Rightarrow> bool" where
  "keeps_link href = (endswith href ''htm'' \<or> endswith href ''html'' \<or> endswith href ''txt'')"

text \<open>
  The first loop, over the rows of the section of document format files, and the second,
  over the rows of the section of data files: in \<open>src/EDGAR/utils/index_parser.py\<close> both
  store a row only under the test of its link.
\<close>

fun doc_format_loop :: "string list \<Rightarrow> doc_dict \<Rightarrow> doc_dict" where
  "doc_format_loop [] doc_format_files = doc_format_files"
| "doc_format_loop (row # rows) doc_format_files =
     (case row_fields row of
        None \<Rightarrow> doc_format_loop rows doc_format_files
      | Some (description, href, file_type) \<Rightarrow>
          if keeps_link href
          then doc_format_loop rows
                 (AList.update description \<lparr> e_type = file_type, e_doc = href \<rparr> doc_format_files)
          else doc_format_loop rows doc_format_files)"

fun data_loop :: "string list \<Rightarrow> doc_dict \<Rightarrow> doc_dict" where
  "data_loop [] data_files = data_files"
| "data_loop (row # rows) data_files =
     (case row_fields row of
        None \<Rightarrow> data_loop rows data_files
      | Some (description, href, file_type) \<Rightarrow>
          if keeps_link href
          then data_loop rows (AList.update description \<lparr> e_type = file_type, e_doc = href \<rparr> data_files)
          else data_loop rows data_files)"

text \<open>The result is the pair of \<open>documentFormatFiles\<close> and \<open>dataFiles\<close>.\<close>

definition extract_sec_filing_data :: "string \<Rightarrow> doc_dict \<times> doc_dict" where
  "extract_sec_filing_data html_content =
     (let doc_section = py_slice html_content (py_find html_content ''<p>Document Format Files</p>'')
                                              (py_find html_content ''<p>Data Files</p>'');
          rows = re_findall DOTALL tr_pattern doc_section;
          doc_format_files = doc_format_loop rows [];
          data_section = py_slice html_content (py_find html_content ''<p>Data Files</p>'')
                                               (py_find html_content ''<!-- END DOCUMENT DIV -->'');
          rows2 = re_findall DOTALL tr_pattern data_section;
          data_files = data_loop rows2 []
      in (doc_format_files, data_files))"

text \<open>
  The data-file loop of the sibling \<open>src/EDGAR - Copy/utils/index_parser.py\<close>, which
  stores every matched row.  There \<open>type != ""\<close> compares the builtin \<open>type\<close> with a
  string and is always true, so an empty description is replaced by the type of the
  row, and a description that is already a key of the document format files by the
  counter.
\<close>

fun data_loop_copy :: "string list \<Rightarrow> doc_dict \<Rightarrow> nat \<Rightarrow> doc_dict \<Rightarrow> doc_dict" where
  "data_loop_copy [] doc_format_files count data_files = data_files"
| "data_loop_copy (row # rows) doc_format_files count data_files =
     (case row_fields row of
        None \<Rightarrow> data_loop_copy rows doc_format_files count data_files
      | Some (description, href, file_type) \<Rightarrow>
          if description = []
          then data_loop_copy rows doc_format_files count
                 (AList.update file_type \<lparr> e_type = file_type, e_doc = href \<rparr> data_files)
          else if description \<in> set (map fst doc_format_files)
          then data_loop_copy rows doc_format_files (count + 1)
                 (AList.update (str_of_nat count) \<lparr> e_type = file_type, e_doc = href \<rparr> data_files)
          else data_loop_copy rows doc_format_files count
                 (AList.update description \<lparr> e_type = file_type, e_doc = href \<rparr> data_files))"

section \<open>DocumentDiscovery: \<open>required_urls\<close>\<close>

type_synonym urls = "(string \<times> string) list"

definition sec_gov :: "string \<Rightarrow> string" where
  "sec_gov doc = ''https://www.sec.gov'' @ doc"

text \<open>\<open>value['doc'].split('/')[-1].split(".")[0]\<close>\<close>

definition file_stem :: "string \<Rightarrow> string" where
  "file_stem doc = hd (py_split CHR ''.'' (last (py_split CHR ''/'' doc)))"

definition index_url_of :: "string \<Rightarrow> string" where
  "index_url_of filename = py_replace filename ''.txt'' ''-index.htm''"

text \<open>The loop over the document format files; its state is \<open>complete_txt_found\<close> and \<open>urls\<close>.\<close>

definition doc_files_step :: "string \<times> doc_entry \<Rightarrow> bool \<times> urls \<Rightarrow> bool \<times> urls" where
  "doc_files_step kv st =
     (let key = fst kv; v = snd kv; complete_txt_found = fst st; urls = snd st in
      if key = ''Complete submission text file''
      then (if \<not> complete_txt_found
            then (True, AList.update ''complete_txt'' (sec_gov (e_doc v)) urls)
            else (complete_txt_found, urls))
      else if py_isdigit key \<and> py_isdigit (e_type v)
      then (complete_txt_found, AList.update (file_stem (e_doc v)) (sec_gov (e_doc v)) urls)
      else if endswith (e_doc v) ''.htm'' \<or> endswith (e_doc v) ''.html''
      then (if \<not> py_in ''nbsp'' (e_type v)
            then (complete_txt_found, AList.update (e_type v) (sec_gov (e_doc v)) urls)
            else (complete_txt_found, AList.update key (sec_gov (e_doc v)) urls))
      else (complete_txt_found, urls))"

fun doc_files_loop :: "doc_dict \<Rightarrow> bool \<times> urls \<Rightarrow> bool \<times> urls" where
  "doc_files_loop [] st = st"
| "doc_files_loop (kv # rest) st = doc_files_loop rest (doc_files_step kv st)"

text \<open>The loop over the data files.\<close>

definition data_files_step :: "string \<times> doc_entry \<Rightarrow> urls \<Rightarrow> urls" where
  "data_files_step kv urls =
     (let key = fst kv; v = snd kv in
      if \<not> py_in ''nbsp'' (e_type v)
      then (if key = ''EXTRACTED XBRL INSTANCE DOCUMENT''
            then AList.update ''xbrl_instance'' (sec_gov (e_doc v)) urls
            else if py_isdigit key \<and> py_isdigit (e_type v)
            then AList.update (file_stem (e_doc v)) (sec_gov (e_doc v)) urls
            else AList.update (''xbrl_'' @ e_type v) (sec_gov (e_doc v)) urls)
      else AList.update (''xbrl_'' @ key) (sec_gov (e_doc v)) urls)"

fun data_files_loop :: "doc_dict \<Rightarrow> urls \<Rightarrow> urls" where
  "data_files_loop [] urls = urls"
| "data_files_loop (kv # rest) urls = data_files_loop rest (data_files_step kv urls)"

text \<open>What the \<open>try\<close> block does with a response of status 200.\<close>

definition urls_of_index_page :: "string \<Rightarrow> string \<Rightarrow> urls \<Rightarrow> urls" where
  "urls_of_index_page filename content urls0 =
     (let (doc_files, data_files) = extract_sec_filing_data content;
          st0 = (if doc_files \<noteq> [] \<and> map_of doc_files ''Complete submission text file'' \<noteq> None
                 then (True, AList.update ''complete_txt''
                         (sec_gov (e_doc (the (map_of doc_files ''Complete submission text file'')))) urls0)
                 else (False, urls0));
          (complete_txt_found, urls1) = (if doc_files \<noteq> [] then doc_files_loop doc_files st0 else st0);
          urls2 = (if data_files \<noteq> [] then data_files_loop data_files urls1 else urls1)
      in if \<not> complete_txt_found then AList.update ''complete_txt'' filename urls2 else urls2)"

text \<open>
  \<open>required_urls\<close> on the outcome \<open>g\<close> of the request for \<open>index_url_of filename\<close>.
  The first two statements stand before the \<open>try\<close>.  A status other than 200 returns
  \<open>None\<close>; the handler catches \<open>Exception\<close>, which the \<open>SystemExit\<close> of \<open>safe_request\<close>
  is not.
\<close>

definition required_urls :: "get_result \<Rightarrow> string \<Rightarrow> exn + urls option" where
  "required_urls g filename =
     (case from_end (py_split CHR ''/'' filename) 2 of
        Inl e \<Rightarrow> Inl e
      | Inr seg \<Rightarrow>
          (let cik = zfill seg 10;
               accession_number = hd (py_split CHR ''.'' (last (py_split CHR ''/'' filename)));
               urls0 = [(''financial_report_xlsx'',
                         ''https://www.sec.gov/Archives/edgar/data/'' @ cik @ ''/''
                           @ py_replace accession_number ''-'' [] @ ''/Financial_Report.xlsx'')]
           in case safe_request g of
                Inl e \<Rightarrow> if is_Exception e
                         then Inr (Some (AList.update ''complete_txt'' filename urls0))
                         else Inl e
              | Inr response \<Rightarrow>
                  if status_code response \<noteq> 200 then Inr None
                  else (case raise_for_status response of
                          Inl e \<Rightarrow> Inr (Some (AList.update ''complete_txt'' filename urls0))
                        | Inr u \<Rightarrow> Inr (Some (urls_of_index_page filename (text_of response) urls0)))))"

text \<open>
  An index page with one row in each section: the form document, and an XBRL schema
  (\<open>.xsd\<close>) among the data files.  \<open>data_rows_of\<close> is \<open>rows2\<close> of the parser.
\<close>

definition sample_index_page :: string where
  "sample_index_page =
     ''<p>Document Format Files</p>'' @
     ''<tr><td>1</td><td>10-Q</td><td><a href='' @ [CHR 0x22] @ ''/Archives/edgar/data/320193/aapl.htm''
       @ [CHR 0x22] @ ''>aapl.htm</a></td><td>10-Q</td></tr>'' @
     ''<p>Data Files</p>'' @
     ''<tr><td>2</td><td>XBRL SCHEMA</td><td><a href='' @ [CHR 0x22] @ ''/Archives/edgar/data/320193/aapl.xsd''
       @ [CHR 0x22] @ ''>aapl.xsd</a></td><td>EX-101.SCH</td></tr>'' @
     ''<!-- END DOCUMENT DIV -->''"

definition data_rows_of :: "string \<Rightarrow> string list" where
  "data_rows_of html_content =
     re_findall DOTALL tr_pattern
       (py_slice html_content (py_find html_content ''<p>Data Files</p>'')
                              (py_find html_content ''<!-- END DOCUMENT DIV -->''))"

section \<open>FiscalMetadataExtractor\<close>

subsection \<open>\<open>datetime.strptime\<close>\<close>

text \<open>
  \<open>strptime\<close> turns a format into a regular expression, matches it at the start of the
  string without regard to case, and raises \<open>ValueError\<close> when there is no match, when
  the match does not reach the end of the string, and when the fields are no date.
  The directives are \<open>%Y\<close> (group 1), \<open>%m\<close> (group 2), \<open>%d\<close> (group 3) and \<open>%b\<close>
  (group 4, the month abbreviations of the C locale); white space in a format stands for
  \<open>\s+\<close>.
\<close>

definition year_re :: regex where
  "year_re = rexactly 4 CDigit"

definition month_re :: regex where
  "month_re = alts [Seq (Str ''1'') (Chr (CRange CHR ''0'' CHR ''2'')),
                    Seq (Str ''0'') (Chr (CRange CHR ''1'' CHR ''9'')),
                    Chr (CRange CHR ''1'' CHR ''9'')]"

definition day_re :: regex where
  "day_re = alts [Seq (Str ''3'') (Chr (CRange CHR ''0'' CHR ''1'')),
                  Seq (Chr (CRange CHR ''1'' CHR ''2'')) (Chr CDigit),
                  Seq (Str ''0'') (Chr (CRange CHR ''1'' CHR ''9'')),
                  Chr (CRange CHR ''1'' CHR ''9''),
                  Seq (Str '' '') (Chr (CRange CHR ''1'' CHR ''9''))]"

definition month_abbr :: "string list" where
  "month_abbr = [''jan'', ''feb'', ''mar'', ''apr'', ''may'', ''jun'',
                 ''jul'', ''aug'', ''sep'', ''oct'', ''nov'', ''dec'']"

text \<open>\<open>'%Y-%m-%d'\<close>, \<open>'%b %d, %Y'\<close> and \<open>'%Y%m%d'\<close>\<close>

definition fmt_Y_m_d :: regex where
  "fmt_Y_m_d = seqs [Grp 1 year_re, Str ''-'', Grp 2 month_re, Str ''-'', Grp 3 day_re]"

definition fmt_b_d_Y :: regex where
  "fmt_b_d_Y = seqs [Grp 4 (alts (map Str month_abbr)), rplus CSpace, Grp 3 day_re, Str '','',
                     rplus CSpace, Grp 1 year_re]"

definition fmt_Ymd :: regex where
  "fmt_Ymd = seqs [Grp 1 year_re, Grp 2 month_re, Grp 3 day_re]"

definition is_leap :: "nat \<Rightarrow> bool" where
  "is_leap y = (y mod 4 = 0 \<and> (y mod 100 \<noteq> 0 \<or> y mod 400 = 0))"

definition days_in_month :: "nat \<Rightarrow> nat \<Rightarrow> nat" where
  "days_in_month y m =
     (if m = 2 then (if is_leap y then 29 else 28)
      else if m = 4 \<or> m = 6 \<or> m = 9 \<or> m = 11 then 30 else 31)"

definition month_of_abbr :: "string \<Rightarrow> nat" where
  "month_of_abbr b = (case List.find (\<lambda>(n, a). a = py_lower b) (zip [1..<13] month_abbr) of
                        Some (n, a) \<Rightarrow> n | None \<Rightarrow> 1)"

text \<open>The result is year, month and day.  A day written with a leading blank reads as the digit.\<close>

definition strptime :: "string \<Rightarrow> regex \<Rightarrow> exn + (nat \<times> nat \<times> nat)" where
  "strptime data_string fmt =
     (case re_match IGNORECASE fmt data_string of
        None \<Rightarrow> Inl ValueError
      | Some found \<Rightarrow>
          if length data_string \<noteq> m_end found then Inl ValueError
          else (let year = (case group found 1 of Some t \<Rightarrow> nat_of_digits t | None \<Rightarrow> 1900);
                    month = (case group found 2 of
                               Some t \<Rightarrow> nat_of_digits t
                             | None \<Rightarrow> (case group found 4 of Some b \<Rightarrow> month_of_abbr b | None \<Rightarrow> 1));
                    day = (case group found 3 of Some t \<Rightarrow> nat_of_digits t | None \<Rightarrow> 1)
                in if year < 1 \<or> day < 1 \<or> days_in_month year month < day then Inl ValueError
                   else Inr (year, month, day)))"

subsection \<open>\<open>determine_QTR_from_date\<close> and \<open>estimate_10K_fiscal_year\<close>\<close>

text \<open>A Python value used as a condition: \<open>None\<close> and the empty string are false.\<close>

definition truthy :: "string option \<Rightarrow> bool" where
  "truthy v = (case v of None \<Rightarrow> False | Some s \<Rightarrow> s \<noteq> [])"

definition quarter_of :: "nat \<Rightarrow> nat \<Rightarrow> string" where
  "quarter_of month day =
     (if month = 3 \<and> day \<ge> 28 then ''Q1''
      else if month = 6 \<and> day \<ge> 28 then ''Q2''
      else if month = 9 \<and> day \<ge> 28 then ''Q3''
      else if month = 12 \<and> day \<ge> 28 then ''Q4''
      else if month \<le> 4 then ''Q1''
      else if month \<le> 7 then ''Q2''
      else if month \<le> 10 then ''Q3''
      else ''Q4'')"

definition determine_QTR_from_date :: "string option \<Rightarrow> string" where
  "determine_QTR_from_date date_str =
     (if \<not> truthy date_str \<or> date_str = Some ''None'' then ''Q1''
      else (let ds = py_strip (py_replace (py_replace (the date_str) [CHR 0x0A] []) [CHR 0x09] []) in
            case strptime ds fmt_Y_m_d of
              Inr (y, month, day) \<Rightarrow> quarter_of month day
            | Inl e \<Rightarrow>
                (case strptime ds fmt_b_d_Y of
                   Inr (y, month, day) \<Rightarrow> quarter_of month day
                 | Inl e' \<Rightarrow> ''Q1'')))"

text \<open>The result of \<open>estimate_10K_fiscal_year\<close> is an integer, not a string.\<close>

definition estimate_10K_fiscal_year :: "string \<Rightarrow> exn + int" where
  "estimate_10K_fiscal_year date_filed =
     (case strptime date_filed fmt_Ymd of
        Inl e \<Rightarrow> Inl e
      | Inr (year, month, day) \<Rightarrow> if month \<le> 5 then Inr (int year - 1) else Inr (int year))"

subsection \<open>\<open>extract_fiscal_info_from_txt\<close>\<close>

text \<open>
  The dictionary \<open>fiscal_info\<close>.  The first six keys are there from the start, with the
  value \<open>None\<close>.  The keys \<open>period_end_year\<close>, \<open>date_filed_year\<close> and \<open>date_filed\<close> are
  only added with a string value when their header is found: for these three fields
  \<open>None\<close> says that the dictionary has no such key.
\<close>

record fiscal_info =
  fi_period_end_date :: "string option"
  fi_fiscal_year_end :: "string option"
  fi_fiscal_year :: "string option"
  fi_fiscal_period :: "string option"
  fi_form_type :: "string option"
  fi_company_name :: "string option"
  fi_period_end_year :: "string option"
  fi_date_filed_year :: "string option"
  fi_date_filed :: "string option"

definition empty_fiscal_info :: fiscal_info where
  "empty_fiscal_info =
     \<lparr> fi_period_end_date = None, fi_fiscal_year_end = None, fi_fiscal_year = None,
       fi_fiscal_period = None, fi_form_type = None, fi_company_name = None,
       fi_period_end_year = None, fi_date_filed_year = None, fi_date_filed = None \<rparr>"

definition letters :: cset where
  "letters = COr (CRange CHR ''A'' CHR ''Z'') (CRange CHR ''a'' CHR ''z'')"

text \<open>\<open>CONFORMED PERIOD OF REPORT:\s*(\d{8})\<close>\<close>

definition pat_period_of_report :: regex where
  "pat_period_of_report = seqs [Str ''CONFORMED PERIOD OF REPORT:'', rstar CSpace, Grp 1 (rexactly 8 CDigit)]"

text \<open>\<open>>Document Fiscal Period Focus</a></td>\s*<td class="text">\s*(Q[1-4])\<close>\<close>

definition pat_fiscal_period :: regex where
  "pat_fiscal_period =
     seqs [Str ''>Document Fiscal Period Focus</a></td>'', rstar CSpace,
           Str (''<td class='' @ [CHR 0x22] @ ''text'' @ [CHR 0x22] @ ''>''), rstar CSpace,
           Grp 1 (Seq (Str ''Q'') (Chr (CRange CHR ''1'' CHR ''4'')))]"

text \<open>\<open>>Document Fiscal Year Focus</a></td>\s*<td class="text">\s*(\d{4})\<close>\<close>

definition pat_fiscal_year :: regex where
  "pat_fiscal_year =
     seqs [Str ''>Document Fiscal Year Focus</a></td>'', rstar CSpace,
           Str (''<td class='' @ [CHR 0x22] @ ''text'' @ [CHR 0x22] @ ''>''), rstar CSpace,
           Grp 1 (rexactly 4 CDigit)]"

text \<open>\<open>CONFORMED SUBMISSION TYPE:\s*(\d+-[A-Za-z]+(?:/[A-Za-z])?)\<close>\<close>

definition pat_submission_type :: regex where
  "pat_submission_type =
     seqs [Str ''CONFORMED SUBMISSION TYPE:'', rstar CSpace,
           Grp 1 (seqs [rplus CDigit, Str ''-'', rplus letters, ropt (Seq (Str ''/'') (Chr letters))])]"

text \<open>\<open>COMPANY CONFORMED NAME:\s*(.+)\<close>\<close>

definition pat_company_name :: regex where
  "pat_company_name = seqs [Str ''COMPANY CONFORMED NAME:'', rstar CSpace, Grp 1 (rplus CAny)]"

text \<open>\<open>FILED AS OF DATE:\s*(\d{8})\<close>\<close>

definition pat_date_filed :: regex where
  "pat_date_filed = seqs [Str ''FILED AS OF DATE:'', rstar CSpace, Grp 1 (rexactly 8 CDigit)]"

text \<open>\<open>re.search(pattern, content, re.IGNORECASE)\<close> and then \<open>group(1)\<close>.\<close>

definition search1 :: "regex \<Rightarrow> string \<Rightarrow> string option" where
  "search1 pat content = (case re_search IGNORECASE pat content of None \<Rightarrow> None | Some m \<Rightarrow> group m 1)"

text \<open>\<open>raw_date[:4]\<close>, \<open>raw_date[4:6]\<close>, \<open>raw_date[6:]\<close> joined by dashes.\<close>

definition dashed_date :: "string \<Rightarrow> string" where
  "dashed_date raw_date = take 4 raw_date @ ''-'' @ take 2 (drop 4 raw_date) @ ''-'' @ drop 6 raw_date"

text \<open>The statements of the \<open>try\<close> block after the six searches, in their order.\<close>

definition set_form_type :: "string option \<Rightarrow> fiscal_info \<Rightarrow> fiscal_info" where
  "set_form_type txt_submission_type fi =
     (case txt_submission_type of Some t \<Rightarrow> fi \<lparr> fi_form_type := Some (py_upper t) \<rparr> | None \<Rightarrow> fi)"

definition set_fiscal_year :: "string option \<Rightarrow> fiscal_info \<Rightarrow> fiscal_info" where
  "set_fiscal_year txt_fiscal_year fi =
     (case txt_fiscal_year of Some y \<Rightarrow> fi \<lparr> fi_fiscal_year := Some y \<rparr> | None \<Rightarrow> fi)"

definition set_period :: "string option \<Rightarrow> fiscal_info \<Rightarrow> fiscal_info" where
  "set_period txt_period_of_report fi =
     (case txt_period_of_report of
        None \<Rightarrow> fi
      | Some raw_date \<Rightarrow>
          fi \<lparr> fi_period_end_date := Some (dashed_date raw_date),
               fi_period_end_year := Some (take 4 raw_date),
               fi_fiscal_year := (if \<not> truthy (fi_fiscal_year fi) then Some (take 4 raw_date)
                                  else fi_fiscal_year fi),
               fi_fiscal_year_end := Some (take 2 (drop 4 raw_date) @ ''-'' @ drop 6 raw_date) \<rparr>)"

definition set_date_filed :: "string option \<Rightarrow> fiscal_info \<Rightarrow> fiscal_info" where
  "set_date_filed txt_date_filed fi =
     (case txt_date_filed of
        None \<Rightarrow> fi
      | Some raw_date \<Rightarrow>
          fi \<lparr> fi_date_filed_year := Some (take 4 raw_date),
               fi_date_filed := Some (dashed_date raw_date) \<rparr>)"

definition set_company_name :: "string option \<Rightarrow> fiscal_info \<Rightarrow> fiscal_info" where
  "set_company_name txt_company_name fi =
     (case txt_company_name of Some n \<Rightarrow> fi \<lparr> fi_company_name := Some (py_strip n) \<rparr> | None \<Rightarrow> fi)"

definition set_fiscal_period :: "string option \<Rightarrow> fiscal_info \<Rightarrow> fiscal_info" where
  "set_fiscal_period txt_fiscal_period fi =
     (if fi_form_type fi = Some ''10-Q'' \<or> fi_form_type fi = Some ''10-Q/A''
      then (case txt_fiscal_period of
              Some q \<Rightarrow> fi \<lparr> fi_fiscal_period := Some q \<rparr>
            | None \<Rightarrow> if truthy (fi_period_end_date fi)
                      then fi \<lparr> fi_fiscal_period := Some (determine_QTR_from_date (fi_period_end_date fi)) \<rparr>
                      else fi)
      else if fi_form_type fi = Some ''10-K'' \<or> fi_form_type fi = Some ''10-K/A''
      then fi \<lparr> fi_fiscal_period := Some ''FY'' \<rparr>
      else fi)"

definition fiscal_info_of_text :: "string \<Rightarrow> fiscal_info" where
  "fiscal_info_of_text content =
     set_fiscal_period (search1 pat_fiscal_period content)
       (set_company_name (search1 pat_company_name content)
         (set_date_filed (search1 pat_date_filed content)
           (set_period (search1 pat_period_of_report content)
             (set_fiscal_year (search1 pat_fiscal_year content)
               (set_form_type (search1 pat_submission_type content) empty_fiscal_info)))))"

text \<open>
  \<open>extract_fiscal_info_from_txt\<close> on the outcome \<open>g\<close> of the request for the complete
  submission text.  The handler catches \<open>Exception\<close>: the \<open>HTTPError\<close> of
  \<open>raise_for_status\<close> leaves the dictionary as it was at the start; the \<open>SystemExit\<close> of
  \<open>safe_request\<close> passes through.
\<close>

definition extract_fiscal_info_from_txt :: "get_result \<Rightarrow> exn + fiscal_info" where
  "extract_fiscal_info_from_txt g =
     (case safe_request g of
        Inl e \<Rightarrow> if is_Exception e then Inr empty_fiscal_info else Inl e
      | Inr response \<Rightarrow>
          (case raise_for_status response of
             Inl e \<Rightarrow> if is_Exception e then Inr empty_fiscal_info else Inl e
           | Inr u \<Rightarrow> Inr (fiscal_info_of_text (text_of response))))"

text \<open>The submission text of the example: a 10-Q for the period ending 2023-03-31.\<close>

definition sample_submission :: string where
  "sample_submission =
     ''<SEC-HEADER>0000320193-23-000064.hdr.sgml : 20230505'' @ [CHR 0x0A] @
     ''CONFORMED SUBMISSION TYPE: 10-Q'' @ [CHR 0x0A] @
     ''CONFORMED PERIOD OF REPORT: 20230331'' @ [CHR 0x0A] @
     ''</SEC-HEADER>'' @ [CHR 0x0A]"

section \<open>DownloadOrchestrator: \<open>download_filing\<close>\<close>

subsection \<open>The world outside and the state of a run\<close>

text \<open>
  The world answers the requests and decides where the file system fails: \<open>http n url\<close>
  is what \<open>session.get\<close> does with the \<open>n\<close>-th request of the run when it asks for
  \<open>url\<close>, and \<open>fs_fault p\<close> says that creating the directory or opening the file \<open>p\<close>
  raises \<open>OSError\<close>.  \<open>rewrite_img\<close> stands for the substitution of the image sources in
  a fetched document, which only changes the text written to disk.  The state is the
  number of requests made, the table of the database, and the directories and files
  on disk.  Paths are strings joined with a slash.
\<close>

record world =
  http :: "nat \<Rightarrow> string \<Rightarrow> get_result"
  fs_fault :: "string \<Rightarrow> bool"
  company_tickers :: "(string \<times> string) list"
  base_dir :: string
  target_dir :: string
  w_now :: string
  rewrite_img :: "string \<Rightarrow> string \<Rightarrow> string"

record dstate =
  requests :: nat
  db :: filings_table
  dirs :: "string list"
  files :: "(string \<times> string) list"

record results =
  filing_record :: descriptor
  downloaded_files :: "string list"
  failed_files :: "string list"
  skipped :: bool

definition fetch :: "world \<Rightarrow> dstate \<Rightarrow> string \<Rightarrow> (exn + response) \<times> dstate" where
  "fetch w s url = (safe_request (http w (requests s) url), s \<lparr> requests := Suc (requests s) \<rparr>)"

definition path_join :: "string \<Rightarrow> string \<Rightarrow> string" where
  "path_join a b = a @ ''/'' @ b"

text \<open>\<open>path.parent\<close>\<close>

definition dirname :: "string \<Rightarrow> string" where
  "dirname p = rev (drop 1 (dropWhile (\<lambda>c. c \<noteq> CHR ''/'') (rev p)))"

text \<open>\<open>path.parent.mkdir(parents=True, exist_ok=True)\<close>\<close>

definition mkdir_parent :: "world \<Rightarrow> dstate \<Rightarrow> string \<Rightarrow> exn + dstate" where
  "mkdir_parent w s path =
     (if fs_fault w (dirname path) then Inl OSError
      else Inr (s \<lparr> dirs := dirname path # dirs s \<rparr>))"

text \<open>\<open>with open(path, 'wb') as f: f.write(content)\<close>\<close>

definition write_file :: "world \<Rightarrow> dstate \<Rightarrow> string \<Rightarrow> string \<Rightarrow> exn + dstate" where
  "write_file w s path content =
     (if fs_fault w path then Inl OSError
      else Inr (s \<lparr> files := AList.update path content (files s) \<rparr>))"

text \<open>A directory exists when it, or a directory below it, was created with its parents.\<close>

definition dir_exists :: "dstate \<Rightarrow> string \<Rightarrow> bool" where
  "dir_exists s d = list_ex (\<lambda>x. x = d \<or> startswith x (d @ ''/'')) (dirs s)"

text \<open>
  \<open>sum(Path(f).stat().st_size for f in target_dir2.iterdir())\<close>: \<open>FileNotFoundError\<close>
  when the directory does not exist.  The sizes counted are those of the files in the
  directory.
\<close>

definition total_size_of :: "dstate \<Rightarrow> string \<Rightarrow> exn + int" where
  "total_size_of s d =
     (if \<not> dir_exists s d then Inl FileNotFoundError
      else Inr (int (sum_list (map (\<lambda>(p, c). length c) (filter (\<lambda>(p, c). dirname p = d) (files s))))))"

definition get_tikcer_by_cik :: "world \<Rightarrow> string \<Rightarrow> string" where
  "get_tikcer_by_cik w cik =
     (case map_of (company_tickers w) (py_strip cik) of
        Some t \<Rightarrow> if t \<noteq> [] then t else ''UNKNOWN''
      | None \<Rightarrow> ''UNKNOWN'')"

subsection \<open>\<open>create_filename\<close> and \<open>create_folder_path\<close>\<close>

text \<open>
  \<open>filename_date.replace('-', '')\<close> raises \<open>AttributeError\<close> on \<open>None\<close>; so does
  \<open>clean_fiscal_year.replace\<close> on the integer that \<open>estimate_10K_fiscal_year\<close> returns.
\<close>

definition filename_date_of :: "string option \<Rightarrow> string option \<Rightarrow> string option" where
  "filename_date_of report_date filing_date =
     (if truthy report_date \<and> report_date \<noteq> Some ''None'' then report_date else filing_date)"

definition date_based :: "string option \<Rightarrow> exn + string" where
  "date_based filename_date =
     (case filename_date of
        None \<Rightarrow> Inl AttributeError
      | Some d \<Rightarrow> Inr (py_replace (py_replace d ''-'' []) ''/'' ''_''))"

definition clean_date_10K :: "string option \<Rightarrow> exn + string" where
  "clean_date_10K filename_date =
     (case filename_date of
        None \<Rightarrow> Inl AttributeError
      | Some d \<Rightarrow> (case estimate_10K_fiscal_year (py_replace d ''-'' []) of
                    Inl e \<Rightarrow> Inl e
                  | Inr clean_fiscal_year \<Rightarrow> Inl AttributeError))"

definition clean_date_of :: "fiscal_info \<Rightarrow> string \<Rightarrow> string option \<Rightarrow> exn + string" where
  "clean_date_of fiscal_info clean_form filename_date =
     (if fi_form_type fiscal_info = Some ''10-Q'' \<or> fi_form_type fiscal_info = Some ''10-Q/A''
      then (if truthy (fi_fiscal_year fiscal_info) \<and> truthy (fi_fiscal_period fiscal_info)
            then Inr (py_replace (the (fi_fiscal_year fiscal_info) @ ''_'' @ clean_form @ ''_''
                                   @ the (fi_fiscal_period fiscal_info)) ''/'' ''_'')
            else date_based filename_date)
      else if fi_form_type fiscal_info = Some ''10-K'' \<or> fi_form_type fiscal_info = Some ''10-K/A''
      then (if truthy (fi_fiscal_year fiscal_info)
            then Inr (py_replace (py_replace (the (fi_fiscal_year fiscal_info)) ''-'' []) ''/'' ''_''
                      @ ''_'' @ clean_form)
            else clean_date_10K filename_date)
      else date_based filename_date)"

definition create_filename ::
  "fiscal_info \<Rightarrow> string option \<Rightarrow> string option \<Rightarrow> string \<Rightarrow> string \<Rightarrow> exn + string" where
  "create_filename fiscal_info report_date filing_date cik company_name =
     (let clean_form = (if truthy (fi_form_type fiscal_info)
                        then py_replace (py_replace (the (fi_form_type fiscal_info)) ''/'' ''_'') '' '' []
                        else ''UNKNOWN'');
          company = py_strip (py_replace (py_replace company_name ''/'' ''_'') [CHR 0x5C] ''_'')
      in case clean_date_of fiscal_info clean_form (filename_date_of report_date filing_date) of
           Inl e \<Rightarrow> Inl e
         | Inr clean_date \<Rightarrow> Inr (clean_date @ ''_'' @ company))"

text \<open>The two directories depend on the CIK only; the form type is normalised and not used.\<close>

definition create_folder_path :: "world \<Rightarrow> string \<Rightarrow> string \<times> string" where
  "create_folder_path w cik = (path_join (base_dir w) cik, path_join (target_dir w) cik)"

subsection \<open>Fetching and saving one document\<close>

text \<open>
  The loop over the URL map makes the directory, then requests, then writes on status
  200; the two other branches request first.  Each returns the list of downloaded files
  and the state, or the exception raised with the state reached.
\<close>

definition save_on_200 ::
  "world \<Rightarrow> dstate \<Rightarrow> string \<Rightarrow> string \<Rightarrow> response \<Rightarrow> string list \<Rightarrow> (exn + string list) \<times> dstate" where
  "save_on_200 w s path content resp dl =
     (if status_code resp = 200
      then (case write_file w s path content of
              Inl e \<Rightarrow> (Inl e, s)
            | Inr s' \<Rightarrow> (Inr (dl @ [path]), s'))
      else (Inr dl, s))"

definition html_doc ::
  "world \<Rightarrow> string \<Rightarrow> string \<Rightarrow> string list \<Rightarrow> dstate \<Rightarrow> (exn + string list) \<times> dstate" where
  "html_doc w url path dl s =
     (case mkdir_parent w s path of
        Inl e \<Rightarrow> (Inl e, s)
      | Inr s1 \<Rightarrow>
          (case fetch w s1 url of
             (Inl e, s2) \<Rightarrow> (Inl e, s2)
           | (Inr resp, s2) \<Rightarrow> save_on_200 w s2 path (rewrite_img w url (text_of resp)) resp dl))"

definition fetch_then_save ::
  "world \<Rightarrow> string \<Rightarrow> string \<Rightarrow> string list \<Rightarrow> dstate \<Rightarrow> (exn + string list) \<times> dstate" where
  "fetch_then_save w url path dl s =
     (case fetch w s url of
        (Inl e, s1) \<Rightarrow> (Inl e, s1)
      | (Inr resp, s1) \<Rightarrow>
          (case mkdir_parent w s1 path of
             Inl e \<Rightarrow> (Inl e, s1)
           | Inr s2 \<Rightarrow> save_on_200 w s2 path (text_of resp) resp dl))"

text \<open>\<open>url.split('.')[-1]\<close>\<close>

definition ext_of :: "string \<Rightarrow> string" where
  "ext_of url = last (py_split CHR ''.'' url)"

text \<open>The path chosen for a key of the URL map, or \<open>None\<close> for \<open>continue\<close>.\<close>

definition doc_path :: "string \<Rightarrow> string \<Rightarrow> string \<Rightarrow> string \<Rightarrow> string \<Rightarrow> string \<Rightarrow> string option" where
  "doc_path tdir tdir2 file_name form_type key url =
     (if key = form_type then Some (path_join tdir2 (file_name @ ''_main.'' @ ext_of url))
      else if py_in ''xbrl'' key
      then Some (path_join tdir (file_name @ ''_'' @ py_replace key ''/'' ''_'' @ ''.'' @ ext_of url))
      else if py_in ''EX'' (py_upper key)
      then Some (path_join tdir2 (file_name @ ''_'' @ py_replace key ''/'' ''_'' @ ''.'' @ ext_of url))
      else None)"

text \<open>The state of the loop: the downloaded files, \<open>has_xbrl_format\<close>, and the state of the run.\<close>

type_synonym loop_state = "string list \<times> int \<times> dstate"

definition html_step ::
  "world \<Rightarrow> string \<Rightarrow> string \<Rightarrow> string \<Rightarrow> string \<Rightarrow> string \<times> string \<Rightarrow> loop_state
     \<Rightarrow> exn option \<times> loop_state" where
  "html_step w tdir tdir2 file_name form_type kv st =
     (let key = fst kv; url = snd kv; dl = fst st; hx = fst (snd st); s = snd (snd st);
          hx' = (if key \<noteq> form_type \<and> py_in ''xbrl'' key then 1 else hx)
      in case doc_path tdir tdir2 file_name form_type key url of
           None \<Rightarrow> (None, st)
         | Some path \<Rightarrow>
             (case html_doc w url path dl s of
                (Inl e, s') \<Rightarrow> (Some e, dl, hx', s')
              | (Inr dl', s') \<Rightarrow> (None, dl', hx', s')))"

fun html_loop ::
  "world \<Rightarrow> string \<Rightarrow> string \<Rightarrow> string \<Rightarrow> string \<Rightarrow> urls \<Rightarrow> loop_state \<Rightarrow> exn option \<times> loop_state" where
  "html_loop w tdir tdir2 file_name form_type [] st = (None, st)"
| "html_loop w tdir tdir2 file_name form_type (kv # rest) st =
     (case html_step w tdir tdir2 file_name form_type kv st of
        (Some e, st') \<Rightarrow> (Some e, st')
      | (None, st') \<Rightarrow> html_loop w tdir tdir2 file_name form_type rest st')"

subsection \<open>The three download branches and the commit\<close>

text \<open>
  Each branch is a \<open>try\<close> block whose handler catches \<open>Exception\<close> and appends a tag to
  \<open>failed_files\<close>; an exception that is no \<open>Exception\<close> (the \<open>SystemExit\<close> of
  \<open>safe_request\<close>) leaves \<open>download_filing\<close>.  The result of a branch is that exception
  if any, the downloaded files, the tags appended, and the state.
\<close>

definition has_form_key :: "urls \<Rightarrow> bool" where
  "has_form_key urls = list_ex (\<lambda>k. map_of urls k \<noteq> None) [''10-K'', ''10-Q'', ''10-K/A'', ''10-Q/A'']"

definition html_branch ::
  "world \<Rightarrow> string \<Rightarrow> string \<Rightarrow> string \<Rightarrow> string \<Rightarrow> urls \<Rightarrow> dstate
     \<Rightarrow> exn option \<times> string list \<times> string list \<times> int \<times> dstate" where
  "html_branch w tdir tdir2 file_name form_type urls s =
     (case html_loop w tdir tdir2 file_name form_type urls ([], 0, s) of
        (None, dl, hx, s') \<Rightarrow> (None, dl, [], hx, s')
      | (Some e, dl, hx, s') \<Rightarrow>
          if is_Exception e then (None, dl, [''html''], hx, s') else (Some e, dl, [], hx, s'))"

definition txt_branch ::
  "world \<Rightarrow> string \<Rightarrow> string \<Rightarrow> urls \<Rightarrow> dstate
     \<Rightarrow> exn option \<times> string list \<times> string list \<times> int \<times> dstate" where
  "txt_branch w tdir2 file_name urls s =
     (case map_of urls ''complete_txt'' of
        None \<Rightarrow> (None, [], [''txt''], 0, s)
      | Some url \<Rightarrow>
          (case fetch_then_save w url (path_join tdir2 (file_name @ ''_full_submission.txt'')) [] s of
             (Inr dl, s') \<Rightarrow> (None, dl, [], 0, s')
           | (Inl e, s') \<Rightarrow>
               if is_Exception e then (None, [], [''txt''], 0, s') else (Some e, [], [], 0, s')))"

definition xlsx_branch ::
  "world \<Rightarrow> string \<Rightarrow> string \<Rightarrow> urls \<Rightarrow> string list \<Rightarrow> dstate
     \<Rightarrow> exn option \<times> string list \<times> string list \<times> dstate" where
  "xlsx_branch w tdir file_name urls dl s =
     (case map_of urls ''financial_report_xlsx'' of
        None \<Rightarrow> (None, dl, [''xlsx''], s)
      | Some url \<Rightarrow>
          (case fetch_then_save w url (path_join tdir (file_name @ ''_financial_report.xlsx'')) dl s of
             (Inr dl', s') \<Rightarrow> (None, dl', [], s')
           | (Inl e, s') \<Rightarrow>
               if is_Exception e then (None, dl, [''xlsx''], s') else (Some e, dl, [], s')))"

definition opt_val :: "string option \<Rightarrow> pyval" where
  "opt_val v = (case v of None \<Rightarrow> PNone | Some s \<Rightarrow> PStr s)"

definition filing_data_of ::
  "descriptor \<Rightarrow> fiscal_info \<Rightarrow> string \<Rightarrow> string \<Rightarrow> string \<Rightarrow> string \<Rightarrow> nat \<Rightarrow> int \<Rightarrow> int \<Rightarrow> pydict" where
  "filing_data_of filling fiscal_info company_name ticker tdir2 file_name file_count total_size hx =
     [(''filing_id'', PStr (d_cik filling @ ''_'' @ d_accession_number filling)),
      (''cik'', PStr (d_cik filling)),
      (''accession_number'', PStr (d_accession_number filling)),
      (''form_type'', PStr (d_form_type filling)),
      (''company_name'', PStr company_name),
      (''ticker'', PStr ticker),
      (''fiscal_year'', opt_val (fi_fiscal_year fiscal_info)),
      (''fiscal_period'', opt_val (fi_fiscal_period fiscal_info)),
      (''filing_date'', PStr (case fi_date_filed fiscal_info of Some d \<Rightarrow> d | None \<Rightarrow> d_date_filed filling)),
      (''period_end_date'', opt_val (fi_period_end_date fiscal_info)),
      (''file_path'', PStr tdir2),
      (''file_count'', PInt (int file_count)),
      (''total_size'', PInt total_size),
      (''download_status'', PStr ''completed''),
      (''has_xbrl_format'', PInt hx),
      (''path'', PStr file_name)]"

text \<open>
  The end of \<open>download_filing\<close>: the record is added only under
  \<open>if results['downloaded_files']\<close>; the result of \<open>add_filing\<close> is not looked at.
\<close>

definition commit ::
  "world \<Rightarrow> dstate \<Rightarrow> descriptor \<Rightarrow> fiscal_info \<Rightarrow> string \<Rightarrow> string \<Rightarrow> string \<Rightarrow> string
     \<Rightarrow> string list \<Rightarrow> string list \<Rightarrow> int \<Rightarrow> (exn + results option) \<times> dstate" where
  "commit w s filling fiscal_info company_name ticker tdir2 file_name dl failed hx =
     (let res = \<lparr> filing_record = filling, downloaded_files = dl, failed_files = failed,
                  skipped = False \<rparr>
      in if dl \<noteq> []
         then (case total_size_of s tdir2 of
                 Inl e \<Rightarrow> (Inl e, s)
               | Inr total_size \<Rightarrow>
                   (Inr (Some res),
                    s \<lparr> db := snd (add_filing (w_now w) (db s)
                                     (filing_data_of filling fiscal_info company_name ticker tdir2
                                        file_name (length dl) total_size hx)) \<rparr>))
         else (Inr (Some res), s))"

text \<open>Lines 425 to 520: the documents, the spreadsheet, the commit.\<close>

definition download_docs ::
  "world \<Rightarrow> dstate \<Rightarrow> descriptor \<Rightarrow> urls \<Rightarrow> fiscal_info \<Rightarrow> string \<Rightarrow> string \<Rightarrow> string
     \<Rightarrow> (exn + results option) \<times> dstate" where
  "download_docs w s filling urls fiscal_info company_name ticker file_name =
     (let tdir = fst (create_folder_path w (d_cik filling));
          tdir2 = snd (create_folder_path w (d_cik filling))
      in case (if has_form_key urls
               then html_branch w tdir tdir2 file_name (d_form_type filling) urls s
               else txt_branch w tdir2 file_name urls s) of
           (Some e, dl, failed, hx, s1) \<Rightarrow> (Inl e, s1)
         | (None, dl, failed, hx, s1) \<Rightarrow>
             (case xlsx_branch w tdir file_name urls dl s1 of
                (Some e, dl2, failed2, s2) \<Rightarrow> (Inl e, s2)
              | (None, dl2, failed2, s2) \<Rightarrow>
                  commit w s2 filling fiscal_info company_name ticker tdir2 file_name dl2
                    (failed @ failed2) hx))"

text \<open>
  Lines 416 to 423: the fiscal metadata and the file name.  The subscripts
  \<open>fiscal_info['period_end_year']\<close> and \<open>fiscal_info['date_filed_year']\<close> raise
  \<open>KeyError\<close> when the key is not in the dictionary.
\<close>

definition with_fiscal_info ::
  "world \<Rightarrow> dstate \<Rightarrow> descriptor \<Rightarrow> urls \<Rightarrow> string \<Rightarrow> fiscal_info \<Rightarrow> (exn + results option) \<times> dstate" where
  "with_fiscal_info w s filling urls ticker fiscal_info =
     (let company_name = (if truthy (fi_company_name fiscal_info) then the (fi_company_name fiscal_info)
                          else d_company_name filling)
      in case fi_period_end_year fiscal_info of
           None \<Rightarrow> (Inl (KeyError ''period_end_year''), s)
         | Some period_end_year \<Rightarrow>
             (case fi_date_filed_year fiscal_info of
                None \<Rightarrow> (Inl (KeyError ''date_filed_year''), s)
              | Some date_filed_year \<Rightarrow>
                  (case create_filename fiscal_info (Some period_end_year) (Some date_filed_year)
                          (d_cik filling) company_name of
                     Inl e \<Rightarrow> (Inl e, s)
                   | Inr file_name \<Rightarrow>
                       download_docs w s filling urls fiscal_info company_name ticker file_name)))"

definition with_urls ::
  "world \<Rightarrow> dstate \<Rightarrow> descriptor \<Rightarrow> string \<Rightarrow> urls \<Rightarrow> (exn + results option) \<times> dstate" where
  "with_urls w s filling ticker urls =
     (case map_of urls ''complete_txt'' of
        None \<Rightarrow> (Inl (KeyError ''complete_txt''), s)
      | Some complete_txt \<Rightarrow>
          (case extract_fiscal_info_from_txt (http w (requests s) complete_txt) of
             Inl e \<Rightarrow> (Inl e, s \<lparr> requests := Suc (requests s) \<rparr>)
           | Inr fiscal_info \<Rightarrow>
               with_fiscal_info w (s \<lparr> requests := Suc (requests s) \<rparr>) filling urls ticker fiscal_info))"

text \<open>
  \<open>download_filing\<close>: the result is what the call returns (\<open>None\<close>, or the dictionary
  \<open>results\<close>) or the exception that leaves it, with the state of the run afterwards.
  \<open>required_urls\<close> makes its request only when the file name has a path.
\<close>

definition download_filing :: "world \<Rightarrow> dstate \<Rightarrow> descriptor \<Rightarrow> (exn + results option) \<times> dstate" where
  "download_filing w s filling =
     (if is_filing_downloaded (db s) (d_cik filling) (d_accession_number filling)
      then (Inr (Some \<lparr> filing_record = filling, downloaded_files = [], failed_files = [],
                         skipped = True \<rparr>), s)
      else (let ticker = get_tikcer_by_cik w (d_cik filling);
                file_name = d_file_name filling
            in case required_urls (http w (requests s) (index_url_of file_name)) file_name of
                 Inl e \<Rightarrow> (Inl e, if e = IndexError then s else s \<lparr> requests := Suc (requests s) \<rparr>)
               | Inr None \<Rightarrow> (Inr None, s \<lparr> requests := Suc (requests s) \<rparr>)
               | Inr (Some urls) \<Rightarrow>
                   if urls = [] then (Inr None, s \<lparr> requests := Suc (requests s) \<rparr>)
                   else with_urls w (s \<lparr> requests := Suc (requests s) \<rparr>) filling ticker urls))"

subsection \<open>Sample runs\<close>

text \<open>
  A filing, two submission texts (one without the period-of-report and filed-as-of
  headers), and worlds that serve the sample index page for the index URL of the filing
  and a submission text for every other URL; in \<open>world_docs_fail\<close> every request after
  the first two is answered with 404; in the last two every request, the one for the
  index page included, raises (a read timeout, a connection error).
\<close>

definition submission_without_period :: string where
  "submission_without_period =
     ''<SEC-HEADER>'' @ [CHR 0x0A] @
     ''CONFORMED SUBMISSION TYPE: 10-Q'' @ [CHR 0x0A] @
     ''COMPANY CONFORMED NAME: APPLE INC'' @ [CHR 0x0A] @
     ''</SEC-HEADER>'' @ [CHR 0x0A]"

definition submission_with_dates :: string where
  "submission_with_dates =
     ''<SEC-HEADER>'' @ [CHR 0x0A] @
     ''CONFORMED SUBMISSION TYPE: 10-Q'' @ [CHR 0x0A] @
     ''CONFORMED PERIOD OF REPORT: 20230331'' @ [CHR 0x0A] @
     ''FILED AS OF DATE: 20230505'' @ [CHR 0x0A] @
     ''</SEC-HEADER>'' @ [CHR 0x0A]"

definition sample_filling :: descriptor where
  "sample_filling =
     \<lparr> d_company_name = ''APPLE INC'', d_form_type = ''10-Q'', d_cik = ''0000320193'',
       d_date_filed = ''20230505'',
       d_file_name = ''https://www.sec.gov/Archives/edgar/data/320193/0000320193-23-000064.txt'',
       d_accession_number = ''0000320193-23-000064'' \<rparr>"

definition sample_index_url :: string where
  "sample_index_url = ''https://www.sec.gov/Archives/edgar/data/320193/0000320193-23-000064-index.htm''"

definition serve :: "string \<Rightarrow> nat \<Rightarrow> string \<Rightarrow> get_result" where
  "serve submission n url =
     Responded \<lparr> status_code = 200,
                 text_of = (if url = sample_index_url then sample_index_page else submission) \<rparr>"

definition world_of :: "(nat \<Rightarrow> string \<Rightarrow> get_result) \<Rightarrow> world" where
  "world_of h =
     \<lparr> http = h,
       fs_fault = (\<lambda>p. False),
       company_tickers = [(''0000320193'', ''AAPL'')],
       base_dir = ''sec-xbrl'',
       target_dir = ''sec-data'',
       w_now = ''2025-01-01T00:00:00'',
       rewrite_img = (\<lambda>url html. html) \<rparr>"

definition world_without_period :: world where
  "world_without_period = world_of (serve submission_without_period)"

definition world_ok :: world where
  "world_ok = world_of (serve submission_with_dates)"

definition world_docs_fail :: world where
  "world_docs_fail =
     world_of (\<lambda>n url. if n < 2 then serve submission_with_dates n url
                        else Responded \<lparr> status_code = 404, text_of = [] \<rparr>)"

definition empty_state :: dstate where
  "empty_state = \<lparr> requests = 0, db = [], dirs = [], files = [] \<rparr>"

definition world_index_timeout :: world where
  "world_index_timeout = world_of (\<lambda>n url. Raised ReadTimeout)"

definition world_index_refused :: world where
  "world_index_refused = world_of (\<lambda>n url. Raised ConnectionError)"

text \<open>From the \<open>k\<close>-th request of the run on, no request is answered with status 200.\<close>

definition fails_from :: "world \<Rightarrow> nat \<Rightarrow> bool" where
  "fails_from w k = (\<forall>n url r. k \<le> n \<longrightarrow> safe_request (http w n url) = Inr r \<longrightarrow> status_code r \<noteq> 200)"

section \<open>Theorems\<close>

subsection \<open>FilingStore: add, delete and the point lookup\<close>

lemma add_filing_True_row:
  assumes "add_filing now tbl fd = (True, tbl')"
  shows "\<exists>row. tbl' = filter (\<lambda>r. r_filing_id row = PNone \<or> r_filing_id r \<noteq> r_filing_id row) tbl @ [row]
            \<and> (\<forall>v. map_of fd ''filing_id'' = Some v \<longrightarrow> r_filing_id row = sql_text v)"
  using assms
  by (auto simp: add_filing_def insert_or_replace_def split: option.splits if_splits)

text \<open>
  C3. For every pair \<open>(cik, accession)\<close>: right after an add that reported success for a
  record whose \<open>filing_id\<close> is \<open>cik + "_" + accession\<close>, the point lookup answers true;
  and right after \<open>delete(cik, accession)\<close> it answers false, whatever the table held.
\<close>

theorem add_then_downloaded_delete_then_not:
  "(map_of fd ''filing_id'' = Some (PStr (filing_id_of cik acc)) \<and> add_filing now tbl fd = (True, tbl')
      \<longrightarrow> is_filing_downloaded tbl' cik acc)
   \<and> \<not> is_filing_downloaded (snd (delete_filing_record tbl cik acc)) cik acc"
proof (intro conjI impI)
  assume h: "map_of fd ''filing_id'' = Some (PStr (filing_id_of cik acc)) \<and> add_filing now tbl fd = (True, tbl')"
  then obtain row where
    t: "tbl' = filter (\<lambda>r. r_filing_id row = PNone \<or> r_filing_id r \<noteq> r_filing_id row) tbl @ [row]"
    and i: "r_filing_id row = sql_text (PStr (filing_id_of cik acc))"
    using add_filing_True_row by blast
  from i have "r_filing_id row = PStr (filing_id_of cik acc)"
    by (simp add: sql_text_def)
  with t show "is_filing_downloaded tbl' cik acc"
    by (simp add: is_filing_downloaded_def list_ex_iff)
next
  show "\<not> is_filing_downloaded (snd (delete_filing_record tbl cik acc)) cik acc"
    by (simp add: is_filing_downloaded_def delete_filing_record_def list_ex_iff)
qed

theorem add_then_downloaded_delete_then_not_witness:
  "is_filing_downloaded
     (snd (add_filing ''2025-01-01T00:00:00'' []
        [(''filing_id'', PStr ''0000320193_0000320193-23-000077''), (''cik'', PStr ''0000320193''),
         (''accession_number'', PStr ''0000320193-23-000077''), (''form_type'', PStr ''10-Q'')]))
     ''0000320193'' ''0000320193-23-000077''"
proof -
  let ?fd = "[(''filing_id'', PStr ''0000320193_0000320193-23-000077''), (''cik'', PStr ''0000320193''),
         (''accession_number'', PStr ''0000320193-23-000077''), (''form_type'', PStr ''10-Q'')]"
  obtain tbl' where a: "add_filing ''2025-01-01T00:00:00'' [] ?fd = (True, tbl')"
    by (simp add: add_filing_def insert_or_replace_def sql_text_def)
  have k: "map_of ?fd ''filing_id'' = Some (PStr (filing_id_of ''0000320193'' ''0000320193-23-000077''))"
    by (simp add: filing_id_of_def)
  from add_then_downloaded_delete_then_not [of ?fd "''0000320193''" "''0000320193-23-000077''"
      "''2025-01-01T00:00:00''" "[]" tbl'] k a
  have "is_filing_downloaded tbl' ''0000320193'' ''0000320193-23-000077''" by blast
  with a show ?thesis by simp
qed

subsection \<open>HttpClient: which outcomes stop the program\<close>

text \<open>
  C2, as stated, fails: an exception of \<open>session.get\<close> that is neither a timeout, nor a
  connection error, nor a user interrupt (for example \<open>TooManyRedirects\<close>) also stops
  the program, through the last handler.
\<close>

theorem safe_request_unexpected_counterexample:
  "safe_request (Raised OtherRequestException) = Inl (SystemExit ''[UNEXPECTED ERROR] Program stopped due to '')
   \<and> \<not> is_ConnectionError OtherRequestException
   \<and> \<not> is_Timeout OtherRequestException
   \<and> OtherRequestException \<noteq> KeyboardInterrupt"
  by (simp add: safe_request_def is_ConnectionError_def is_Timeout_def is_SystemExit_def is_Exception_def)

lemma safe_request_Raised:
  "(\<exists>m. safe_request (Raised e) = Inl (SystemExit m)) \<longleftrightarrow> \<not> is_Timeout e"
  by (cases e) (auto simp: safe_request_def is_ConnectionError_def is_Timeout_def is_SystemExit_def is_Exception_def)

lemma safe_request_Responded:
  "(\<exists>m. safe_request (Responded r) = Inl (SystemExit m)) \<longleftrightarrow> status_code r = 429 \<or> status_code r = 403"
  by (auto simp: safe_request_def)

text \<open>
  C2 (amended). \<open>safe_request\<close> stops the program exactly when the status is 429 or 403
  or \<open>session.get\<close> raises anything that is not a timeout (a connection error that is
  not a connect timeout, a user interrupt, any other exception).  On a timeout it returns
  a synthetic response with status 408; every other response is returned as it is.
\<close>

theorem safe_request_policy:
  "((\<exists>m. safe_request g = Inl (SystemExit m))
      \<longleftrightarrow> (case g of Responded r \<Rightarrow> status_code r = 429 \<or> status_code r = 403
                   | Raised e \<Rightarrow> \<not> is_Timeout e))
   \<and> (\<forall>e. g = Raised e \<and> is_Timeout e \<longrightarrow> safe_request g = Inr \<lparr> status_code = 408, text_of = [] \<rparr>)
   \<and> (\<forall>r. g = Responded r \<and> status_code r \<noteq> 429 \<and> status_code r \<noteq> 403 \<longrightarrow> safe_request g = Inr r)"
proof (intro conjI allI impI)
  show "(\<exists>m. safe_request g = Inl (SystemExit m))
      \<longleftrightarrow> (case g of Responded r \<Rightarrow> status_code r = 429 \<or> status_code r = 403
                   | Raised e \<Rightarrow> \<not> is_Timeout e)"
    by (cases g) (simp_all only: get_result.case safe_request_Raised safe_request_Responded)
next
  fix e assume "g = Raised e \<and> is_Timeout e"
  then show "safe_request g = Inr \<lparr> status_code = 408, text_of = [] \<rparr>"
    by (auto simp: safe_request_def is_Timeout_def)
next
  fix r assume "g = Responded r \<and> status_code r \<noteq> 429 \<and> status_code r \<noteq> 403"
  then show "safe_request g = Inr r"
    by (simp add: safe_request_def)
qed

theorem safe_request_policy_witness:
  "safe_request (Raised ReadTimeout) = Inr \<lparr> status_code = 408, text_of = [] \<rparr>
   \<and> safe_request (Responded \<lparr> status_code = 404, text_of = ''Not Found'' \<rparr>)
       = Inr \<lparr> status_code = 404, text_of = ''Not Found'' \<rparr>
   \<and> (\<exists>m. safe_request (Responded \<lparr> status_code = 429, text_of = [] \<rparr>) = Inl (SystemExit m))
   \<and> (\<exists>m. safe_request (Raised ConnectionError) = Inl (SystemExit m))"
proof -
  have t: "is_Timeout ReadTimeout" by (simp add: is_Timeout_def)
  have c: "\<not> is_Timeout ConnectionError" by (simp add: is_Timeout_def)
  show ?thesis
    using safe_request_policy [of "Raised ReadTimeout"]
      safe_request_policy [of "Responded \<lparr> status_code = 404, text_of = ''Not Found'' \<rparr>"]
      safe_request_policy [of "Responded \<lparr> status_code = 429, text_of = [] \<rparr>"]
      safe_request_policy [of "Raised ConnectionError"] t c
    by simp
qed

subsection \<open>RateLimiter: capacity zero\<close>




subsection \<open>IndexPageParser: the separator line\<close>

lemma find_data_start_None:
  "find_data_start lines i = None \<longleftrightarrow> \<not> (\<exists>line \<in> set lines. set line = {CHR ''-''})"
  by (induction lines arbitrary: i) auto


lemma only_dashes_iff:
  "set line = {c} \<longleftrightarrow> line \<noteq> [] \<and> list_all (\<lambda>x. x = c) line"
  by (induction line) (auto simp: list_all_iff)

text \<open>
  C10. Once the index file is fetched (the request is answered and \<open>raise_for_status\<close>
  passes), \<open>pure_parse_daily_single_index\<close> returns a list of descriptors when some line
  of the text consists of dashes only, and otherwise leaves with the
  \<open>UnboundLocalError\<close> of \<open>data_start\<close> instead of returning.
\<close>

theorem pure_parse_needs_separator:
  assumes "safe_request g = Inr r" and "raise_for_status r = Inr ()"
  shows "((\<exists>line \<in> set (splitlines (text_of r)). set line = {CHR ''-''})
            \<longrightarrow> (\<exists>filings. pure_parse_daily_single_index g = Inr filings))
         \<and> (\<not> (\<exists>line \<in> set (splitlines (text_of r)). set line = {CHR ''-''})
            \<longrightarrow> pure_parse_daily_single_index g = Inl (UnboundLocalError ''data_start''))"
proof (intro conjI impI)
  assume "\<exists>line \<in> set (splitlines (text_of r)). set line = {CHR ''-''}"
  then have "find_data_start (splitlines (text_of r)) 0 \<noteq> None"
    by (simp add: find_data_start_None)
  then obtain k where "find_data_start (splitlines (text_of r)) 0 = Some k" by blast
  with assms show "\<exists>filings. pure_parse_daily_single_index g = Inr filings"
    by (simp add: pure_parse_daily_single_index_def Let_def)
next
  assume "\<not> (\<exists>line \<in> set (splitlines (text_of r)). set line = {CHR ''-''})"
  then have "find_data_start (splitlines (text_of r)) 0 = None"
    by (simp add: find_data_start_None)
  with assms show "pure_parse_daily_single_index g = Inl (UnboundLocalError ''data_start'')"
    by (simp add: pure_parse_daily_single_index_def Let_def)
qed

lemma splitlines_idx_no_separator: "splitlines idx_no_separator = [''Form Type   Company Name   CIK   Date Filed  File Name'']"
  by (simp add: idx_no_separator_def is_linebreak_def)

lemma splitlines_idx_only_separator: "splitlines idx_only_separator = [''Form Type   Company Name   CIK   Date Filed  File Name'', ''-----'']"
  by (simp add: idx_only_separator_def is_linebreak_def)

theorem pure_parse_needs_separator_witness:
  "pure_parse_daily_single_index (Responded \<lparr> status_code = 200, text_of = idx_no_separator \<rparr>)
     = Inl (UnboundLocalError ''data_start'')
   \<and> (\<exists>filings. pure_parse_daily_single_index
          (Responded \<lparr> status_code = 200, text_of = idx_only_separator \<rparr>) = Inr filings)"
proof -
  let ?r1 = "\<lparr> status_code = 200, text_of = idx_no_separator \<rparr>"
  let ?r2 = "\<lparr> status_code = 200, text_of = idx_only_separator \<rparr>"
  have a1: "safe_request (Responded ?r1) = Inr ?r1" and a2: "safe_request (Responded ?r2) = Inr ?r2"
    by (simp_all add: safe_request_def)
  have b1: "raise_for_status ?r1 = Inr ()" and b2: "raise_for_status ?r2 = Inr ()"
    by (simp_all add: raise_for_status_def)
  have n: "\<not> (\<exists>line \<in> set (splitlines (text_of ?r1)). set line = {CHR ''-''})"
    by (simp add: splitlines_idx_no_separator only_dashes_iff)
  have y: "\<exists>line \<in> set (splitlines (text_of ?r2)). set line = {CHR ''-''}"
    by (simp add: splitlines_idx_only_separator only_dashes_iff)
  from pure_parse_needs_separator [OF a1 b1] n pure_parse_needs_separator [OF a2 b2] y
  show ?thesis by blast
qed

subsection \<open>IndexPageParser: three data lines\<close>











subsection \<open>DocumentDiscovery: the data files of an index page\<close>

text \<open>
  C5 fails on \<open>src/EDGAR/utils/index_parser.py\<close>: the loop over the data files applies
  the same test of the link as the loop over the document format files, so the
  \<open>.xsd\<close> data file of the page is dropped, against the comment of the source
  ("Data Files (description as key, all files)").
\<close>

theorem extract_sec_filing_data_drops_xsd:
  "extract_sec_filing_data sample_index_page =
     ([(''10-Q'', \<lparr> e_type = ''10-Q'', e_doc = ''/Archives/edgar/data/320193/aapl.htm'' \<rparr>)], [])"
  by code_simp

theorem extract_sec_filing_data_drops_xsd_witness:
  "snd (extract_sec_filing_data sample_index_page) = []"
  using extract_sec_filing_data_drops_xsd by simp

text \<open>The loop of the sibling file keeps the entry of the same page.\<close>

lemma data_loop_copy_keeps_xsd:
  "data_loop_copy (data_rows_of sample_index_page)
       [(''10-Q'', \<lparr> e_type = ''10-Q'', e_doc = ''/Archives/edgar/data/320193/aapl.htm'' \<rparr>)] 0 []
     = [(''XBRL SCHEMA'', \<lparr> e_type = ''EX-101.SCH'', e_doc = ''/Archives/edgar/data/320193/aapl.xsd'' \<rparr>)]"
  by code_simp

subsection \<open>FiscalMetadataExtractor: a 10-Q for the first quarter\<close>

lemma QTR_2023_03_31: "determine_QTR_from_date (Some ''2023-03-31'') = ''Q1''"
  by code_simp

lemma upper_10Q: "py_upper ''10-Q'' = ''10-Q''"
  by code_simp

text \<open>
  C7. For a fetched submission text whose submission-type header reads \<open>10-Q\<close>, whose
  period-of-report header reads \<open>20230331\<close>, and which has neither the fiscal-year tag
  nor the fiscal-period tag, the extraction yields form type \<open>10-Q\<close>, fiscal year
  \<open>2023\<close> and fiscal period \<open>Q1\<close> (through \<open>determine_QTR_from_date\<close> on
  \<open>2023-03-31\<close>: month 3, day at least 28).
\<close>

theorem extract_fiscal_info_10Q_march:
  assumes "safe_request g = Inr r" and "raise_for_status r = Inr ()"
    and "search1 pat_submission_type (text_of r) = Some ''10-Q''"
    and "search1 pat_period_of_report (text_of r) = Some ''20230331''"
    and "search1 pat_fiscal_year (text_of r) = None"
    and "search1 pat_fiscal_period (text_of r) = None"
  shows "\<exists>fi. extract_fiscal_info_from_txt g = Inr fi \<and> fi_form_type fi = Some ''10-Q''
              \<and> fi_fiscal_year fi = Some ''2023'' \<and> fi_fiscal_period fi = Some ''Q1''"
  using assms
  by (simp add: extract_fiscal_info_from_txt_def fiscal_info_of_text_def set_form_type_def
        set_fiscal_year_def set_period_def set_date_filed_def set_company_name_def
        set_fiscal_period_def empty_fiscal_info_def truthy_def dashed_date_def upper_10Q
        QTR_2023_03_31 split: option.splits)

lemma sample_searches:
  "search1 pat_submission_type sample_submission = Some ''10-Q''"
  "search1 pat_period_of_report sample_submission = Some ''20230331''"
  "search1 pat_fiscal_year sample_submission = None"
  "search1 pat_fiscal_period sample_submission = None"
  by code_simp+

theorem extract_fiscal_info_10Q_march_witness:
  "\<exists>fi. extract_fiscal_info_from_txt (Responded \<lparr> status_code = 200, text_of = sample_submission \<rparr>) = Inr fi
        \<and> fi_form_type fi = Some ''10-Q'' \<and> fi_fiscal_year fi = Some ''2023''
        \<and> fi_fiscal_period fi = Some ''Q1''"
proof -
  let ?r = "\<lparr> status_code = 200, text_of = sample_submission \<rparr>"
  have 1: "safe_request (Responded ?r) = Inr ?r" by (simp add: safe_request_def)
  have 2: "raise_for_status ?r = Inr ()" by (simp add: raise_for_status_def)
  have 3: "search1 pat_submission_type (text_of ?r) = Some ''10-Q''"
    and 4: "search1 pat_period_of_report (text_of ?r) = Some ''20230331''"
    and 5: "search1 pat_fiscal_year (text_of ?r) = None"
    and 6: "search1 pat_fiscal_period (text_of ?r) = None"
    by (simp_all add: sample_searches)
  show ?thesis by (rule extract_fiscal_info_10Q_march [OF 1 2 3 4 5 6])
qed

subsection \<open>DownloadOrchestrator: the record is committed only after a download\<close>

text \<open>Nothing before the commit touches the table, and the request counter only grows.\<close>

lemma save_on_200_db:
  "save_on_200 w s path content resp dl = (res, s') \<Longrightarrow> db s' = db s \<and> requests s' = requests s"
  by (auto simp: save_on_200_def write_file_def split: if_splits sum.splits)

lemma html_doc_db:
  "html_doc w url path dl s = (res, s') \<Longrightarrow> db s' = db s \<and> requests s \<le> requests s'"
  by (auto simp: html_doc_def mkdir_parent_def fetch_def split: if_splits sum.splits prod.splits
           dest!: save_on_200_db)

lemma fetch_then_save_db:
  "fetch_then_save w url path dl s = (res, s') \<Longrightarrow> db s' = db s \<and> requests s \<le> requests s'"
  by (auto simp: fetch_then_save_def mkdir_parent_def fetch_def split: if_splits sum.splits prod.splits
           dest!: save_on_200_db)

lemma html_step_db:
  "html_step w tdir tdir2 file_name form_type kv st = (r, st') \<Longrightarrow>
     db (snd (snd st')) = db (snd (snd st)) \<and> requests (snd (snd st)) \<le> requests (snd (snd st'))"
  by (auto simp: html_step_def Let_def split: option.splits sum.splits prod.splits dest!: html_doc_db)

lemma html_loop_db:
  "html_loop w tdir tdir2 file_name form_type urls st = (r, st') \<Longrightarrow>
     db (snd (snd st')) = db (snd (snd st)) \<and> requests (snd (snd st)) \<le> requests (snd (snd st'))"
proof (induction urls arbitrary: st)
  case Nil
  then show ?case by simp
next
  case (Cons kv rest)
  obtain r1 st1 where h: "html_step w tdir tdir2 file_name form_type kv st = (r1, st1)"
    by (cases "html_step w tdir tdir2 file_name form_type kv st")
  note d = html_step_db [OF h]
  show ?case
  proof (cases r1)
    case None
    with Cons.prems h have "html_loop w tdir tdir2 file_name form_type rest st1 = (r, st')" by simp
    from Cons.IH [OF this] d show ?thesis by simp
  next
    case (Some e)
    with Cons.prems h have "st' = st1" by simp
    with d show ?thesis by simp
  qed
qed

lemma html_branch_db:
  "html_branch w tdir tdir2 file_name form_type urls s = (r, dl, failed, hx, s') \<Longrightarrow>
     db s' = db s \<and> requests s \<le> requests s'"
  by (auto simp: html_branch_def split: prod.splits option.splits if_splits dest!: html_loop_db)

lemma txt_branch_db:
  "txt_branch w tdir2 file_name urls s = (r, dl, failed, hx, s') \<Longrightarrow>
     db s' = db s \<and> requests s \<le> requests s'"
  by (auto simp: txt_branch_def split: prod.splits option.splits sum.splits if_splits
           dest!: fetch_then_save_db)

lemma xlsx_branch_db:
  "xlsx_branch w tdir file_name urls dl s = (r, dl', failed, s') \<Longrightarrow>
     db s' = db s \<and> requests s \<le> requests s'"
  by (auto simp: xlsx_branch_def split: prod.splits option.splits sum.splits if_splits
           dest!: fetch_then_save_db)

lemma commit_db:
  assumes "commit w s filling fi company ticker tdir2 file_name dl failed hx = (out, s')"
  shows "db s' = db s \<or> (dl \<noteq> [] \<and> out = Inr (Some \<lparr> filing_record = filling, downloaded_files = dl,
                                          failed_files = failed, skipped = False \<rparr>))"
  using assms by (auto simp: commit_def Let_def split: if_splits sum.splits)

lemma download_docs_db:
  assumes "download_docs w s filling urls fi company ticker file_name = (out, s')"
  shows "db s' = db s \<or> (\<exists>r. out = Inr (Some r) \<and> downloaded_files r \<noteq> [] \<and> \<not> skipped r)"
proof -
  let ?tdir = "fst (create_folder_path w (d_cik filling))"
  let ?tdir2 = "snd (create_folder_path w (d_cik filling))"
  let ?b1 = "if has_form_key urls
             then html_branch w ?tdir ?tdir2 file_name (d_form_type filling) urls s
             else txt_branch w ?tdir2 file_name urls s"
  obtain r1 dl failed hx s1 where b1: "?b1 = (r1, dl, failed, hx, s1)"
    by (cases ?b1) auto
  then have d1: "db s1 = db s"
    by (auto split: if_splits dest: html_branch_db txt_branch_db)
  show ?thesis
  proof (cases r1)
    case (Some e)
    with assms b1 have "s' = s1" by (simp add: download_docs_def Let_def)
    with d1 show ?thesis by simp
  next
    case None
    obtain r2 dl2 failed2 s2 where b2: "xlsx_branch w ?tdir file_name urls dl s1 = (r2, dl2, failed2, s2)"
      by (cases "xlsx_branch w ?tdir file_name urls dl s1") auto
    then have d2: "db s2 = db s1" by (auto dest: xlsx_branch_db)
    show ?thesis
    proof (cases r2)
      case (Some e)
      with assms b1 b2 None have "s' = s2" by (simp add: download_docs_def Let_def)
      with d1 d2 show ?thesis by simp
    next
      case n2: None
      with assms b1 b2 None
      have "commit w s2 filling fi company ticker ?tdir2 file_name dl2 (failed @ failed2) hx = (out, s')"
        by (simp add: download_docs_def Let_def)
      from commit_db [OF this] d1 d2 show ?thesis by auto
    qed
  qed
qed

lemma with_fiscal_info_db:
  assumes "with_fiscal_info w s filling urls ticker fi = (out, s')"
  shows "db s' = db s \<or> (\<exists>r. out = Inr (Some r) \<and> downloaded_files r \<noteq> [] \<and> \<not> skipped r)"
  using assms
  by (auto simp: with_fiscal_info_def Let_def split: option.splits sum.splits dest: download_docs_db)

lemma with_urls_db:
  assumes "with_urls w s filling ticker urls = (out, s')"
  shows "db s' = db s \<or> (\<exists>r. out = Inr (Some r) \<and> downloaded_files r \<noteq> [] \<and> \<not> skipped r)"
  using assms
  by (auto simp: with_urls_def split: option.splits sum.splits dest: with_fiscal_info_db)

lemma download_filing_db:
  assumes "download_filing w s filling = (out, s')"
  shows "db s' = db s \<or> (\<exists>r. out = Inr (Some r) \<and> downloaded_files r \<noteq> [] \<and> \<not> skipped r)"
  using assms
  by (auto simp: download_filing_def Let_def split: if_splits option.splits sum.splits
           dest: with_urls_db)


text \<open>While no request is answered with 200, the list of downloaded files stays as it is.\<close>

lemma save_on_200_fail:
  "status_code resp \<noteq> 200 \<Longrightarrow> save_on_200 w s path content resp dl = (Inr dl, s)"
  by (simp add: save_on_200_def)

lemma html_doc_fail:
  assumes "fails_from w k" and "k \<le> requests s" and "html_doc w url path dl s = (res, s')"
  shows "res = Inr dl \<or> (\<exists>e. res = Inl e)"
proof (cases "mkdir_parent w s path")
  case (Inl e)
  with assms(3) show ?thesis by (auto simp: html_doc_def)
next
  case (Inr s1)
  then have r1: "requests s1 = requests s"
    by (auto simp: mkdir_parent_def split: if_splits)
  show ?thesis
  proof (cases "safe_request (http w (requests s1) url)")
    case (Inl e)
    with assms(3) Inr show ?thesis by (auto simp: html_doc_def fetch_def)
  next
    case i: (Inr resp)
    with assms(1,2) r1 have "status_code resp \<noteq> 200"
      by (auto simp: fails_from_def)
    with assms(3) Inr i show ?thesis
      by (auto simp: html_doc_def fetch_def save_on_200_fail)
  qed
qed

lemma fetch_then_save_fail:
  assumes "fails_from w k" and "k \<le> requests s" and "fetch_then_save w url path dl s = (res, s')"
  shows "res = Inr dl \<or> (\<exists>e. res = Inl e)"
proof (cases "safe_request (http w (requests s) url)")
  case (Inl e)
  with assms(3) show ?thesis by (auto simp: fetch_then_save_def fetch_def)
next
  case i: (Inr resp)
  with assms(1,2) have n: "status_code resp \<noteq> 200"
    by (auto simp: fails_from_def)
  show ?thesis
  proof (cases "mkdir_parent w (s \<lparr> requests := Suc (requests s) \<rparr>) path")
    case (Inl e)
    with assms(3) i show ?thesis by (auto simp: fetch_then_save_def fetch_def)
  next
    case (Inr s2)
    with assms(3) i n show ?thesis
      by (auto simp: fetch_then_save_def fetch_def save_on_200_fail)
  qed
qed

lemma html_step_fail:
  assumes "fails_from w k" and "k \<le> requests (snd (snd st))"
    and "html_step w tdir tdir2 file_name form_type kv st = (r, st')"
  shows "fst st' = fst st"
proof (cases "doc_path tdir tdir2 file_name form_type (fst kv) (snd kv)")
  case None
  with assms(3) show ?thesis by (simp add: html_step_def Let_def)
next
  case (Some path)
  obtain res s' where h: "html_doc w (snd kv) path (fst st) (snd (snd st)) = (res, s')"
    by (cases "html_doc w (snd kv) path (fst st) (snd (snd st))")
  from html_doc_fail [OF assms(1,2) h] assms(3) Some h show ?thesis
    by (auto simp: html_step_def Let_def)
qed

lemma html_loop_fail:
  assumes "fails_from w k"
  shows "k \<le> requests (snd (snd st)) \<Longrightarrow>
         html_loop w tdir tdir2 file_name form_type urls st = (r, st') \<Longrightarrow> fst st' = fst st"
proof (induction urls arbitrary: st)
  case Nil
  then show ?case by simp
next
  case (Cons kv rest)
  obtain r1 st1 where h: "html_step w tdir tdir2 file_name form_type kv st = (r1, st1)"
    by (cases "html_step w tdir tdir2 file_name form_type kv st")
  note f = html_step_fail [OF assms Cons.prems(1) h]
  note d = html_step_db [OF h]
  show ?case
  proof (cases r1)
    case None
    with Cons.prems h have l: "html_loop w tdir tdir2 file_name form_type rest st1 = (r, st')" by simp
    from d Cons.prems(1) have "k \<le> requests (snd (snd st1))" by simp
    from Cons.IH [OF this l] f show ?thesis by simp
  next
    case (Some e)
    with Cons.prems h have "st' = st1" by simp
    with f show ?thesis by simp
  qed
qed

lemma html_branch_fail:
  assumes "fails_from w k" and "k \<le> requests s"
    and "html_branch w tdir tdir2 file_name form_type urls s = (r, dl, failed, hx, s')"
  shows "dl = []"
proof -
  obtain r0 dl0 hx0 s0 where l: "html_loop w tdir tdir2 file_name form_type urls ([], 0, s) = (r0, dl0, hx0, s0)"
    by (cases "html_loop w tdir tdir2 file_name form_type urls ([], 0, s)") auto
  from html_loop_fail [OF assms(1) _ l] assms(2) have "dl0 = []" by simp
  with assms(3) l show ?thesis
    by (auto simp: html_branch_def split: option.splits if_splits)
qed

lemma txt_branch_fail:
  assumes "fails_from w k" and "k \<le> requests s"
    and "txt_branch w tdir2 file_name urls s = (r, dl, failed, hx, s')"
  shows "dl = []"
proof (cases "map_of urls ''complete_txt''")
  case None
  with assms(3) show ?thesis by (simp add: txt_branch_def)
next
  case (Some url)
  obtain res s1 where h: "fetch_then_save w url (path_join tdir2 (file_name @ ''_full_submission.txt'')) [] s = (res, s1)"
    by (cases "fetch_then_save w url (path_join tdir2 (file_name @ ''_full_submission.txt'')) [] s")
  from fetch_then_save_fail [OF assms(1,2) h] assms(3) Some h show ?thesis
    by (auto simp: txt_branch_def split: if_splits)
qed

lemma xlsx_branch_fail:
  assumes "fails_from w k" and "k \<le> requests s"
    and "xlsx_branch w tdir file_name urls dl s = (r, dl', failed, s')"
  shows "dl' = dl"
proof (cases "map_of urls ''financial_report_xlsx''")
  case None
  with assms(3) show ?thesis by (simp add: xlsx_branch_def)
next
  case (Some url)
  obtain res s1 where h: "fetch_then_save w url (path_join tdir (file_name @ ''_financial_report.xlsx'')) dl s = (res, s1)"
    by (cases "fetch_then_save w url (path_join tdir (file_name @ ''_financial_report.xlsx'')) dl s")
  from fetch_then_save_fail [OF assms(1,2) h] assms(3) Some h show ?thesis
    by (auto simp: xlsx_branch_def split: if_splits)
qed

lemma download_docs_fail:
  assumes "fails_from w k" and "k \<le> requests s"
    and "download_docs w s filling urls fi company ticker file_name = (out, s')"
  shows "db s' = db s"
proof -
  let ?tdir = "fst (create_folder_path w (d_cik filling))"
  let ?tdir2 = "snd (create_folder_path w (d_cik filling))"
  let ?b1 = "if has_form_key urls
             then html_branch w ?tdir ?tdir2 file_name (d_form_type filling) urls s
             else txt_branch w ?tdir2 file_name urls s"
  obtain r1 dl failed hx s1 where b1: "?b1 = (r1, dl, failed, hx, s1)"
    by (cases ?b1) auto
  then have d1: "db s1 = db s \<and> requests s \<le> requests s1"
    by (auto split: if_splits dest: html_branch_db txt_branch_db)
  from b1 assms(1,2) have e1: "dl = []"
    by (auto split: if_splits dest: html_branch_fail txt_branch_fail)
  show ?thesis
  proof (cases r1)
    case (Some e)
    with assms(3) b1 have "s' = s1" by (simp add: download_docs_def Let_def)
    with d1 show ?thesis by simp
  next
    case None
    obtain r2 dl2 failed2 s2 where b2: "xlsx_branch w ?tdir file_name urls dl s1 = (r2, dl2, failed2, s2)"
      by (cases "xlsx_branch w ?tdir file_name urls dl s1") auto
    then have d2: "db s2 = db s1" by (auto dest: xlsx_branch_db)
    from d1 assms(2) have "k \<le> requests s1" by simp
    from xlsx_branch_fail [OF assms(1) this b2] e1 have e2: "dl2 = []" by simp
    show ?thesis
    proof (cases r2)
      case (Some e)
      with assms(3) b1 b2 None have "s' = s2" by (simp add: download_docs_def Let_def)
      with d1 d2 show ?thesis by simp
    next
      case n2: None
      with assms(3) b1 b2 None
      have "commit w s2 filling fi company ticker ?tdir2 file_name dl2 (failed @ failed2) hx = (out, s')"
        by (simp add: download_docs_def Let_def)
      from commit_db [OF this] e2 d1 d2 show ?thesis by auto
    qed
  qed
qed

lemma with_fiscal_info_fail:
  assumes "fails_from w k" and "k \<le> requests s"
    and "with_fiscal_info w s filling urls ticker fi = (out, s')"
  shows "db s' = db s"
  using assms
  by (auto simp: with_fiscal_info_def Let_def split: option.splits sum.splits dest: download_docs_fail)

lemma with_urls_fail:
  assumes "fails_from w k" and "k \<le> Suc (requests s)"
    and "with_urls w s filling ticker urls = (out, s')"
  shows "db s' = db s"
proof (cases "map_of urls ''complete_txt''")
  case None
  with assms(3) show ?thesis by (simp add: with_urls_def)
next
  case (Some u)
  show ?thesis
  proof (cases "extract_fiscal_info_from_txt (http w (requests s) u)")
    case (Inl e)
    with assms(3) Some show ?thesis by (auto simp: with_urls_def)
  next
    case (Inr fi)
    with assms(3) Some
    have h: "with_fiscal_info w (s \<lparr> requests := Suc (requests s) \<rparr>) filling urls ticker fi = (out, s')"
      by (simp add: with_urls_def)
    from with_fiscal_info_fail [OF assms(1) _ h] assms(2) show ?thesis by simp
  qed
qed

lemma download_filing_fail:
  assumes "fails_from w (requests s + 2)" and "download_filing w s filling = (out, s')"
  shows "db s' = db s"
proof (cases "is_filing_downloaded (db s) (d_cik filling) (d_accession_number filling)")
  case True
  with assms(2) show ?thesis by (simp add: download_filing_def)
next
  case False
  let ?u = "required_urls (http w (requests s) (index_url_of (d_file_name filling))) (d_file_name filling)"
  show ?thesis
  proof (cases ?u)
    case (Inl e)
    with assms(2) False show ?thesis by (auto simp: download_filing_def Let_def)
  next
    case (Inr uo)
    show ?thesis
    proof (cases uo)
      case None
      with assms(2) False Inr show ?thesis by (auto simp: download_filing_def Let_def)
    next
      case (Some urls)
      show ?thesis
      proof (cases "urls = []")
        case True
        with assms(2) False Inr Some show ?thesis by (auto simp: download_filing_def Let_def)
      next
        case ne: False
        with assms(2) False Inr Some
        have h: "with_urls w (s \<lparr> requests := Suc (requests s) \<rparr>) filling
                   (get_tikcer_by_cik w (d_cik filling)) urls = (out, s')"
          by (simp add: download_filing_def Let_def)
        from with_urls_fail [OF assms(1) _ h] show ?thesis by simp
      qed
    qed
  qed
qed

text \<open>Every path in the list of downloaded files is a file on disk.\<close>

lemma write_file_files:
  "write_file w s path content = Inr s' \<Longrightarrow> fst ` set (files s') = insert path (fst ` set (files s))"
proof (cases "fs_fault w path")
  case True
  assume "write_file w s path content = Inr s'"
  with True show ?thesis by (simp add: write_file_def)
next
  case False
  assume "write_file w s path content = Inr s'"
  with False have "files s' = AList.update path content (files s)"
    by (auto simp: write_file_def)
  then show ?thesis by (simp add: AList.dom_update)
qed

lemma save_on_200_files:
  assumes "save_on_200 w s path content resp dl = (res, s')" and "set dl \<subseteq> fst ` set (files s)"
  shows "fst ` set (files s) \<subseteq> fst ` set (files s')
         \<and> (\<forall>dl'. res = Inr dl' \<longrightarrow> set dl' \<subseteq> fst ` set (files s'))"
proof (cases "status_code resp = 200")
  case False
  with assms show ?thesis by (auto simp: save_on_200_def)
next
  case True
  show ?thesis
  proof (cases "write_file w s path content")
    case (Inl e)
    with assms True show ?thesis by (auto simp: save_on_200_def)
  next
    case (Inr s2)
    note k = write_file_files [OF Inr]
    from assms(1) True Inr have "res = Inr (dl @ [path])" "s' = s2"
      by (auto simp: save_on_200_def)
    with k assms(2) show ?thesis by auto
  qed
qed

lemma html_doc_files:
  assumes "html_doc w url path dl s = (res, s')" and "set dl \<subseteq> fst ` set (files s)"
  shows "fst ` set (files s) \<subseteq> fst ` set (files s')
         \<and> (\<forall>dl'. res = Inr dl' \<longrightarrow> set dl' \<subseteq> fst ` set (files s'))"
proof (cases "mkdir_parent w s path")
  case (Inl e)
  with assms show ?thesis by (auto simp: html_doc_def)
next
  case (Inr s1)
  then have f1: "files s1 = files s" by (auto simp: mkdir_parent_def split: if_splits)
  show ?thesis
  proof (cases "safe_request (http w (requests s1) url)")
    case (Inl e)
    with assms Inr f1 show ?thesis by (auto simp: html_doc_def fetch_def)
  next
    case i: (Inr resp)
    with assms(1) Inr
    have h: "save_on_200 w (s1 \<lparr> requests := Suc (requests s1) \<rparr>) path
               (rewrite_img w url (text_of resp)) resp dl = (res, s')"
      by (simp add: html_doc_def fetch_def)
    from save_on_200_files [OF h] assms(2) f1 show ?thesis by simp
  qed
qed

lemma fetch_then_save_files:
  assumes "fetch_then_save w url path dl s = (res, s')" and "set dl \<subseteq> fst ` set (files s)"
  shows "fst ` set (files s) \<subseteq> fst ` set (files s')
         \<and> (\<forall>dl'. res = Inr dl' \<longrightarrow> set dl' \<subseteq> fst ` set (files s'))"
proof (cases "safe_request (http w (requests s) url)")
  case (Inl e)
  with assms show ?thesis by (auto simp: fetch_then_save_def fetch_def)
next
  case i: (Inr resp)
  show ?thesis
  proof (cases "mkdir_parent w (s \<lparr> requests := Suc (requests s) \<rparr>) path")
    case (Inl e)
    with assms i show ?thesis by (auto simp: fetch_then_save_def fetch_def)
  next
    case (Inr s2)
    then have f2: "files s2 = files s" by (auto simp: mkdir_parent_def split: if_splits)
    from assms(1) i Inr have h: "save_on_200 w s2 path (text_of resp) resp dl = (res, s')"
      by (simp add: fetch_then_save_def fetch_def)
    from save_on_200_files [OF h] assms(2) f2 show ?thesis by simp
  qed
qed

lemma html_step_files:
  assumes "html_step w tdir tdir2 file_name form_type kv st = (r, st')"
    and "set (fst st) \<subseteq> fst ` set (files (snd (snd st)))"
  shows "set (fst st') \<subseteq> fst ` set (files (snd (snd st')))"
proof (cases "doc_path tdir tdir2 file_name form_type (fst kv) (snd kv)")
  case None
  with assms show ?thesis by (simp add: html_step_def Let_def)
next
  case (Some path)
  obtain res s' where h: "html_doc w (snd kv) path (fst st) (snd (snd st)) = (res, s')"
    by (cases "html_doc w (snd kv) path (fst st) (snd (snd st))")
  note k = html_doc_files [OF h assms(2)]
  show ?thesis
  proof (cases res)
    case (Inl e)
    with assms(1) Some h have "fst st' = fst st" "snd (snd st') = s'"
      by (auto simp: html_step_def Let_def)
    with k assms(2) show ?thesis by auto
  next
    case (Inr dl')
    with assms(1) Some h have "fst st' = dl'" "snd (snd st') = s'"
      by (auto simp: html_step_def Let_def)
    with k Inr show ?thesis by auto
  qed
qed

lemma html_loop_files:
  "html_loop w tdir tdir2 file_name form_type urls st = (r, st') \<Longrightarrow>
   set (fst st) \<subseteq> fst ` set (files (snd (snd st))) \<Longrightarrow>
   set (fst st') \<subseteq> fst ` set (files (snd (snd st')))"
proof (induction urls arbitrary: st)
  case Nil
  then show ?case by simp
next
  case (Cons kv rest)
  obtain r1 st1 where h: "html_step w tdir tdir2 file_name form_type kv st = (r1, st1)"
    by (cases "html_step w tdir tdir2 file_name form_type kv st")
  note f = html_step_files [OF h Cons.prems(2)]
  show ?case
  proof (cases r1)
    case None
    with Cons.prems h have "html_loop w tdir tdir2 file_name form_type rest st1 = (r, st')" by simp
    from Cons.IH [OF this f] show ?thesis .
  next
    case (Some e)
    with Cons.prems h have "st' = st1" by simp
    with f show ?thesis by simp
  qed
qed

lemma html_branch_files:
  assumes "html_branch w tdir tdir2 file_name form_type urls s = (r, dl, failed, hx, s')"
  shows "set dl \<subseteq> fst ` set (files s')"
proof -
  obtain r0 dl0 hx0 s0 where l: "html_loop w tdir tdir2 file_name form_type urls ([], 0, s) = (r0, dl0, hx0, s0)"
    by (cases "html_loop w tdir tdir2 file_name form_type urls ([], 0, s)") auto
  from html_loop_files [OF l] have "set dl0 \<subseteq> fst ` set (files s0)" by simp
  with assms l show ?thesis
    by (auto simp: html_branch_def split: option.splits if_splits)
qed

lemma txt_branch_files:
  assumes "txt_branch w tdir2 file_name urls s = (r, dl, failed, hx, s')"
  shows "set dl \<subseteq> fst ` set (files s')"
proof (cases "map_of urls ''complete_txt''")
  case None
  with assms show ?thesis by (simp add: txt_branch_def)
next
  case (Some url)
  obtain res s1 where h: "fetch_then_save w url (path_join tdir2 (file_name @ ''_full_submission.txt'')) [] s = (res, s1)"
    by (cases "fetch_then_save w url (path_join tdir2 (file_name @ ''_full_submission.txt'')) [] s")
  from fetch_then_save_files [OF h] assms Some h show ?thesis
    by (cases res) (auto simp: txt_branch_def split: if_splits)
qed

lemma xlsx_branch_files:
  assumes "xlsx_branch w tdir file_name urls dl s = (r, dl', failed, s')"
    and "set dl \<subseteq> fst ` set (files s)"
  shows "set dl' \<subseteq> fst ` set (files s')"
proof (cases "map_of urls ''financial_report_xlsx''")
  case None
  with assms show ?thesis by (simp add: xlsx_branch_def)
next
  case (Some url)
  obtain res s1 where h: "fetch_then_save w url (path_join tdir (file_name @ ''_financial_report.xlsx'')) dl s = (res, s1)"
    by (cases "fetch_then_save w url (path_join tdir (file_name @ ''_financial_report.xlsx'')) dl s")
  from fetch_then_save_files [OF h assms(2)] assms Some h show ?thesis
    by (cases res) (auto simp: xlsx_branch_def split: if_splits)
qed

lemma commit_files:
  assumes "commit w s filling fi company ticker tdir2 file_name dl failed hx = (Inr (Some r), s')"
  shows "downloaded_files r = dl \<and> files s' = files s"
  using assms by (auto simp: commit_def Let_def split: if_splits sum.splits)

lemma download_docs_files:
  assumes "download_docs w s filling urls fi company ticker file_name = (Inr (Some r), s')"
  shows "set (downloaded_files r) \<subseteq> fst ` set (files s')"
proof -
  let ?tdir = "fst (create_folder_path w (d_cik filling))"
  let ?tdir2 = "snd (create_folder_path w (d_cik filling))"
  let ?b1 = "if has_form_key urls
             then html_branch w ?tdir ?tdir2 file_name (d_form_type filling) urls s
             else txt_branch w ?tdir2 file_name urls s"
  obtain r1 dl failed hx s1 where b1: "?b1 = (r1, dl, failed, hx, s1)"
    by (cases ?b1) auto
  then have k1: "set dl \<subseteq> fst ` set (files s1)"
    by (auto split: if_splits dest: html_branch_files txt_branch_files)
  show ?thesis
  proof (cases r1)
    case (Some e)
    with assms b1 show ?thesis by (simp add: download_docs_def Let_def)
  next
    case None
    obtain r2 dl2 failed2 s2 where b2: "xlsx_branch w ?tdir file_name urls dl s1 = (r2, dl2, failed2, s2)"
      by (cases "xlsx_branch w ?tdir file_name urls dl s1") auto
    note k2 = xlsx_branch_files [OF b2 k1]
    show ?thesis
    proof (cases r2)
      case (Some e)
      with assms b1 b2 None show ?thesis by (simp add: download_docs_def Let_def)
    next
      case n2: None
      with assms b1 b2 None
      have "commit w s2 filling fi company ticker ?tdir2 file_name dl2 (failed @ failed2) hx = (Inr (Some r), s')"
        by (simp add: download_docs_def Let_def)
      from commit_files [OF this] k2 show ?thesis by simp
    qed
  qed
qed

lemma with_fiscal_info_files:
  assumes "with_fiscal_info w s filling urls ticker fi = (Inr (Some r), s')"
  shows "set (downloaded_files r) \<subseteq> fst ` set (files s')"
  using assms
  by (auto simp: with_fiscal_info_def Let_def split: option.splits sum.splits
           dest!: download_docs_files)

lemma with_urls_files:
  assumes "with_urls w s filling ticker urls = (Inr (Some r), s')"
  shows "set (downloaded_files r) \<subseteq> fst ` set (files s')"
  using assms
  by (auto simp: with_urls_def split: option.splits sum.splits dest!: with_fiscal_info_files)

lemma download_filing_files:
  assumes "download_filing w s filling = (Inr (Some r), s')"
  shows "set (downloaded_files r) \<subseteq> fst ` set (files s')"
  using assms
  by (auto simp: download_filing_def Let_def split: if_splits option.splits sum.splits
           dest!: with_urls_files)

text \<open>
  C1. Whatever the world does, \<open>download_filing\<close> changes the table of the FilingStore
  only when it returns a result that is not a skip and whose list of downloaded files
  is not empty, and every file of that list is then on disk.  When none of the
  document requests (those after the requests for the index page and for the fiscal
  metadata) is answered with status 200, the table is left as it was, so the filing
  stays absent.
\<close>

theorem download_filing_commits_only_downloads:
  assumes "download_filing w s filling = (out, s')"
  shows "(db s' \<noteq> db s \<longrightarrow>
            (\<exists>r. out = Inr (Some r) \<and> \<not> skipped r \<and> downloaded_files r \<noteq> []
                  \<and> set (downloaded_files r) \<subseteq> fst ` set (files s')))
         \<and> ((\<forall>n url r. requests s + 2 \<le> n \<longrightarrow> safe_request (http w n url) = Inr r
                          \<longrightarrow> status_code r \<noteq> 200)
              \<longrightarrow> db s' = db s)"
proof (intro conjI impI)
  assume c: "db s' \<noteq> db s"
  with download_filing_db [OF assms]
  obtain r where r: "out = Inr (Some r)" "downloaded_files r \<noteq> []" "\<not> skipped r" by auto
  with assms have "download_filing w s filling = (Inr (Some r), s')" by simp
  from download_filing_files [OF this] r
  show "\<exists>r. out = Inr (Some r) \<and> \<not> skipped r \<and> downloaded_files r \<noteq> []
             \<and> set (downloaded_files r) \<subseteq> fst ` set (files s')"
    by auto
next
  assume "\<forall>n url r. requests s + 2 \<le> n \<longrightarrow> safe_request (http w n url) = Inr r
                       \<longrightarrow> status_code r \<noteq> 200"
  then have "fails_from w (requests s + 2)" by (simp add: fails_from_def)
  from download_filing_fail [OF this assms] show "db s' = db s" .
qed

lemma run_world_ok:
  "db (snd (download_filing world_ok empty_state sample_filling)) \<noteq> db empty_state"
  by code_simp

lemma world_docs_fail_fails:
  "\<forall>n url r. requests empty_state + 2 \<le> n \<longrightarrow> safe_request (http world_docs_fail n url) = Inr r
                \<longrightarrow> status_code r \<noteq> 200"
  by (auto simp: world_docs_fail_def world_of_def empty_state_def safe_request_def)

theorem download_filing_commits_only_downloads_witness:
  "(\<exists>r. fst (download_filing world_ok empty_state sample_filling) = Inr (Some r)
        \<and> \<not> skipped r \<and> downloaded_files r \<noteq> []
        \<and> set (downloaded_files r)
            \<subseteq> fst ` set (files (snd (download_filing world_ok empty_state sample_filling))))
   \<and> db (snd (download_filing world_docs_fail empty_state sample_filling)) = db empty_state"
proof -
  have 1: "download_filing world_ok empty_state sample_filling
             = (fst (download_filing world_ok empty_state sample_filling),
                snd (download_filing world_ok empty_state sample_filling))"
    by simp
  have 2: "download_filing world_docs_fail empty_state sample_filling
             = (fst (download_filing world_docs_fail empty_state sample_filling),
                snd (download_filing world_docs_fail empty_state sample_filling))"
    by simp
  from download_filing_commits_only_downloads [OF 1] run_world_ok
    download_filing_commits_only_downloads [OF 2] world_docs_fail_fails
  show ?thesis by blast
qed

subsection \<open>DownloadOrchestrator: a submission text without the period of report\<close>

text \<open>The extraction itself never raises once the request is answered.\<close>

lemma extract_fiscal_info_total:
  assumes "safe_request g = Inr r"
  shows "\<exists>fi. extract_fiscal_info_from_txt g = Inr fi"
  using assms
  by (auto simp: extract_fiscal_info_from_txt_def raise_for_status_def is_Exception_def
        is_SystemExit_def split: sum.splits)

text \<open>
  C6 fails in \<open>download_filing\<close>: for a submission text without \<open>CONFORMED PERIOD OF
  REPORT\<close> the dictionary has no key \<open>period_end_year\<close>, and the subscript in the call
  of \<open>create_filename\<close> raises \<open>KeyError\<close>, which leaves \<open>download_filing\<close> uncaught.
\<close>

theorem download_filing_KeyError_without_period:
  "download_filing world_without_period empty_state sample_filling
     = (Inl (KeyError ''period_end_year''), \<lparr> requests = 2, db = [], dirs = [], files = [] \<rparr>)"
  by code_simp

theorem download_filing_KeyError_without_period_witness:
  "fst (download_filing world_without_period empty_state sample_filling) = Inl (KeyError ''period_end_year'')"
  using download_filing_KeyError_without_period by simp

subsection \<open>DocumentDiscovery: a failed fetch of the index page\<close>

lemma safe_request_Inl_SystemExit:
  "safe_request g = Inl e \<Longrightarrow> \<exists>m. e = SystemExit m"
  by (cases g; cases e)
     (auto simp: safe_request_def is_Timeout_def is_ConnectionError_def is_SystemExit_def
        is_Exception_def split: if_splits)

lemma required_urls_fatal:
  assumes "from_end (py_split CHR ''/'' filename) 2 = Inr seg"
    and "safe_request g = Inl (SystemExit m)"
  shows "required_urls g filename = Inl (SystemExit m)"
  using assms by (simp add: required_urls_def Let_def is_Exception_def is_SystemExit_def)

lemma required_urls_not_200:
  assumes "from_end (py_split CHR ''/'' filename) 2 = Inr seg"
    and "safe_request g = Inr r" and "status_code r \<noteq> 200"
  shows "required_urls g filename = Inr None"
  using assms by (simp add: required_urls_def Let_def)

text \<open>
  C4, as stated, fails: when the index page is answered with 404, \<open>required_urls\<close>
  returns \<open>None\<close>, not a degraded map; and when it is answered with 429,
  \<open>required_urls\<close> raises \<open>SystemExit\<close>.
\<close>

theorem required_urls_failed_fetch_counterexample:
  "required_urls (Responded \<lparr> status_code = 404, text_of = [] \<rparr>)
     ''https://www.sec.gov/Archives/edgar/data/320193/0000320193-23-000064.txt'' = Inr None
   \<and> required_urls (Responded \<lparr> status_code = 429, text_of = [] \<rparr>)
     ''https://www.sec.gov/Archives/edgar/data/320193/0000320193-23-000064.txt''
       = Inl (SystemExit ''[429 ERROR] Program stopped due to rate limit'')"
  by code_simp

text \<open>
  C4 (amended). For a filing whose text URL has a path (at least one slash): when the
  fetch of the index page yields a response whose status is not 200 (404, 500 and
  above, any other status that is not 429 or 403, or the synthetic 408 of a timeout),
  \<open>required_urls\<close> returns \<open>None\<close> without raising, and \<open>download_filing\<close>, for a filing
  that is not yet recorded, returns \<open>None\<close> and changes nothing but the request count.
  When the status is 429 or 403, or the request raises anything but a timeout (a
  connection error, for one), \<open>required_urls\<close> raises \<open>SystemExit\<close>, which also leaves
  \<open>download_filing\<close>, with the table as it was.
\<close>

theorem required_urls_failed_fetch:
  assumes "from_end (py_split CHR ''/'' (d_file_name filling)) 2 = Inr seg"
    and "g = http w (requests s) (index_url_of (d_file_name filling))"
  shows "(\<forall>r. safe_request g = Inr r \<and> status_code r \<noteq> 200 \<longrightarrow>
            required_urls g (d_file_name filling) = Inr None
            \<and> (\<not> is_filing_downloaded (db s) (d_cik filling) (d_accession_number filling) \<longrightarrow>
                 download_filing w s filling = (Inr None, s \<lparr> requests := Suc (requests s) \<rparr>)))
         \<and> ((case g of Responded r \<Rightarrow> status_code r = 429 \<or> status_code r = 403
                      | Raised e \<Rightarrow> \<not> is_Timeout e) \<longrightarrow>
              (\<exists>m. required_urls g (d_file_name filling) = Inl (SystemExit m)
                    \<and> (\<not> is_filing_downloaded (db s) (d_cik filling) (d_accession_number filling) \<longrightarrow>
                         fst (download_filing w s filling) = Inl (SystemExit m)
                         \<and> db (snd (download_filing w s filling)) = db s)))"
proof (intro conjI allI impI)
  fix r assume a: "safe_request g = Inr r \<and> status_code r \<noteq> 200"
  then show n: "required_urls g (d_file_name filling) = Inr None"
    using required_urls_not_200 [OF assms(1)] by blast
  assume "\<not> is_filing_downloaded (db s) (d_cik filling) (d_accession_number filling)"
  with n assms(2) show "download_filing w s filling = (Inr None, s \<lparr> requests := Suc (requests s) \<rparr>)"
    by (simp add: download_filing_def Let_def)
next
  assume "case g of Responded r \<Rightarrow> status_code r = 429 \<or> status_code r = 403
                  | Raised e \<Rightarrow> \<not> is_Timeout e"
  then have "\<exists>m. safe_request g = Inl (SystemExit m)"
    by (cases g) (simp_all add: safe_request_Raised safe_request_Responded)
  then obtain m where m: "safe_request g = Inl (SystemExit m)" by blast
  note q = required_urls_fatal [OF assms(1) m]
  have "\<not> is_filing_downloaded (db s) (d_cik filling) (d_accession_number filling) \<longrightarrow>
          fst (download_filing w s filling) = Inl (SystemExit m)
          \<and> db (snd (download_filing w s filling)) = db s"
    using q assms(2) by (simp add: download_filing_def Let_def)
  with q show "\<exists>m. required_urls g (d_file_name filling) = Inl (SystemExit m)
                    \<and> (\<not> is_filing_downloaded (db s) (d_cik filling) (d_accession_number filling) \<longrightarrow>
                         fst (download_filing w s filling) = Inl (SystemExit m)
                         \<and> db (snd (download_filing w s filling)) = db s)"
    by blast
qed

lemma sample_filling_seg:
  "from_end (py_split CHR ''/'' (d_file_name sample_filling)) 2 = Inr ''320193''"
  by code_simp

theorem required_urls_failed_fetch_witness:
  "download_filing world_index_timeout empty_state sample_filling
     = (Inr None, empty_state \<lparr> requests := Suc (requests empty_state) \<rparr>)
   \<and> required_urls (Raised ReadTimeout) (d_file_name sample_filling) = Inr None
   \<and> (\<exists>m. required_urls (Raised ConnectionError) (d_file_name sample_filling) = Inl (SystemExit m)
          \<and> fst (download_filing world_index_refused empty_state sample_filling) = Inl (SystemExit m))"
proof -
  have g1: "Raised ReadTimeout
              = http world_index_timeout (requests empty_state) (index_url_of (d_file_name sample_filling))"
    by (simp add: world_index_timeout_def world_of_def)
  have g2: "Raised ConnectionError
              = http world_index_refused (requests empty_state) (index_url_of (d_file_name sample_filling))"
    by (simp add: world_index_refused_def world_of_def)
  have t: "safe_request (Raised ReadTimeout) = Inr \<lparr> status_code = 408, text_of = [] \<rparr>"
    by (simp add: safe_request_def is_Timeout_def)
  have c: "\<not> is_Timeout ConnectionError" by (simp add: is_Timeout_def)
  have n: "\<not> is_filing_downloaded (db empty_state) (d_cik sample_filling) (d_accession_number sample_filling)"
    by (simp add: empty_state_def is_filing_downloaded_def)
  from required_urls_failed_fetch [OF sample_filling_seg g1] t n
  have 1: "required_urls (Raised ReadTimeout) (d_file_name sample_filling) = Inr None
           \<and> download_filing world_index_timeout empty_state sample_filling
               = (Inr None, empty_state \<lparr> requests := Suc (requests empty_state) \<rparr>)"
    by simp
  from required_urls_failed_fetch [OF sample_filling_seg g2] c n
  have 2: "\<exists>m. required_urls (Raised ConnectionError) (d_file_name sample_filling) = Inl (SystemExit m)
          \<and> fst (download_filing world_index_refused empty_state sample_filling) = Inl (SystemExit m)"
    by auto
  from 1 2 show ?thesis by blast
qed

end
